theory Spec2Isabelle
  imports
    Complex_Main
    "HOL-Library.List_Lexorder"
    "HOL-Library.Char_ord"
    "HOL-Library.Product_Lexorder"
    "HOL-Library.Sublist"
begin

section \<open>Numbers of the data frames\<close>

text \<open>
  The columns of \<^verbatim>\<open>dashboard.py\<close> hold 64-bit floats. A value is modelled as one of
  the four classes a float falls into: a finite number, the two infinities, or NaN (which
  pandas reads as the null of a numeric column). Finite numbers are exact rationals: the
  binary rounding of each operation, signed zeros and overflow to infinity are not
  modelled. Division follows the vectorised division of pandas, which never raises: a
  zero divisor gives NaN for a zero dividend and an infinity otherwise.
\<close>

datatype fval = Fin (the_fin: rat) | PInf | NInf | NaN

fun fdiv :: "fval \<Rightarrow> fval \<Rightarrow> fval" where
  "fdiv NaN y = NaN"
| "fdiv x NaN = NaN"
| "fdiv (Fin a) (Fin b) =
     (if b = 0 then (if a = 0 then NaN else if 0 < a then PInf else NInf) else Fin (a / b))"
| "fdiv (Fin a) y = Fin 0"
| "fdiv PInf (Fin b) = (if b < 0 then NInf else PInf)"
| "fdiv NInf (Fin b) = (if b < 0 then PInf else NInf)"
| "fdiv x y = NaN"

fun fmul :: "fval \<Rightarrow> fval \<Rightarrow> fval" where
  "fmul NaN y = NaN"
| "fmul x NaN = NaN"
| "fmul (Fin a) (Fin b) = Fin (a * b)"
| "fmul (Fin a) PInf = (if a = 0 then NaN else if 0 < a then PInf else NInf)"
| "fmul (Fin a) NInf = (if a = 0 then NaN else if 0 < a then NInf else PInf)"
| "fmul PInf (Fin b) = (if b = 0 then NaN else if 0 < b then PInf else NInf)"
| "fmul NInf (Fin b) = (if b = 0 then NaN else if 0 < b then NInf else PInf)"
| "fmul PInf PInf = PInf"
| "fmul PInf NInf = NInf"
| "fmul NInf PInf = NInf"
| "fmul NInf NInf = PInf"

fun fsub :: "fval \<Rightarrow> fval \<Rightarrow> fval" where
  "fsub NaN y = NaN"
| "fsub x NaN = NaN"
| "fsub (Fin a) (Fin b) = Fin (a - b)"
| "fsub (Fin a) PInf = NInf"
| "fsub (Fin a) NInf = PInf"
| "fsub PInf PInf = NaN"
| "fsub PInf y = PInf"
| "fsub NInf NInf = NaN"
| "fsub NInf y = NInf"

text \<open>
  \<^verbatim>\<open>round(x, d)\<close> on a Series (numpy) and on a Python float both round to the nearest
  multiple of \<open>10\<^sup>-\<^sup>d\<close>, a tie going to the even neighbour; infinities and NaN pass through.
  The model decides a tie on the exact rational; the code decides it on the binary value,
  which may lie just beside the tie. Nothing below depends on how a tie falls.
\<close>

definition round_half_even :: "rat \<Rightarrow> int" where
  "round_half_even x =
     (let f = \<lfloor>x\<rfloor>; r = x - of_int f
      in if r < 1 / 2 then f else if 1 / 2 < r then f + 1 else if even f then f else f + 1)"

definition round_to :: "nat \<Rightarrow> rat \<Rightarrow> rat" where
  "round_to d x = of_int (round_half_even (x * 10 ^ d)) / 10 ^ d"

fun fround :: "nat \<Rightarrow> fval \<Rightarrow> fval" where
  "fround d (Fin x) = Fin (round_to d x)"
| "fround d v = v"

section \<open>Input tables\<close>

text \<open>
  A row of \<^verbatim>\<open>clients\<close> as it stands after line 29: the columns are renamed, the renewal
  date is parsed and its year taken. \<open>None\<close> is a blank cell, or a year whose date did not
  parse (\<^verbatim>\<open>errors="coerce"\<close>). The renewal number is an integer in every row.
\<close>

record raw_client =
  Company_raw :: "string option"
  Department_raw :: "string option"
  Renewal_No_raw :: int
  Year_raw :: "int option"

record client =
  Company :: string
  Department :: string
  Renewal_No :: int
  Year :: int

text \<open>Line 30: \<^verbatim>\<open>clients.dropna(subset=["Company", "Department", "Year"])\<close>.\<close>

definition dropna :: "raw_client list \<Rightarrow> client list" where
  "dropna rows =
     List.map_filter
       (\<lambda>r. case (Company_raw r, Department_raw r, Year_raw r) of
              (Some c, Some d, Some y) \<Rightarrow>
                Some \<lparr>Company = c, Department = d, Renewal_No = Renewal_No_raw r, Year = y\<rparr>
            | _ \<Rightarrow> None)
       rows"

text \<open>
  A row of \<^verbatim>\<open>finance\<close>. In the loaded table the year is a cell of any kind \<open>'y\<close>;
  line 36 casts the column to integers.
\<close>

record 'y raw_finance =
  Department_fr :: string
  Year_fr :: 'y
  Total_Sales_fr :: fval
  Total_Profit_fr :: fval

record finance_row =
  Department_f :: string
  Year_f :: int
  Total_Sales :: fval
  Total_Profit :: fval

section \<open>6. Financial Performance\<close>

text \<open>Line 112, for one row: \<^verbatim>\<open>round((Total Profit / Total Sales) * 100, 1)\<close>.\<close>

definition profit_margin :: "finance_row \<Rightarrow> fval" where
  "profit_margin r = fround 1 (fmul (fdiv (Total_Profit r) (Total_Sales r)) (Fin 100))"

definition Profit_Margin_col :: "finance_row list \<Rightarrow> fval list" where
  "Profit_Margin_col rows = map profit_margin rows"

section \<open>1. Active Clients by Year\<close>

text \<open>
  Line 41: \<^verbatim>\<open>clients.groupby("Year")["Company"].nunique()\<close>. A group-by lists its keys
  in ascending order, each once.
\<close>

definition clients_per_year_rows :: "client list \<Rightarrow> (int \<times> nat) list" where
  "clients_per_year_rows cs =
     map (\<lambda>y. (y, length (remdups (map Company (filter (\<lambda>c. Year c = y) cs)))))
       (sort (remdups (map Year cs)))"

text \<open>
  Line 42: \<^verbatim>\<open>(pct_change() * 100).round(1)\<close>; \<^verbatim>\<open>pct_change\<close> divides each value
  by its predecessor and subtracts 1, the first value having none.
\<close>

definition pct_change :: "fval list \<Rightarrow> fval list" where
  "pct_change xs =
     (case xs of [] \<Rightarrow> []
      | x # rest \<Rightarrow> NaN # map2 (\<lambda>prev cur. fsub (fdiv cur prev) (Fin 1)) xs rest)"

definition Growth_col :: "(int \<times> nat) list \<Rightarrow> fval list" where
  "Growth_col rows =
     map (\<lambda>v. fround 1 (fmul v (Fin 100))) (pct_change (map (\<lambda>(y, n). Fin (of_nat n)) rows))"

section \<open>2. Renewal Frequency\<close>

text \<open>
  Line 51: \<^verbatim>\<open>clients.groupby("Company")["Renewal_No"].max()\<close>, then
  \<^verbatim>\<open>.value_counts().sort_index()\<close>: how often each maximum occurs, by ascending maximum.
\<close>

definition company_max :: "client list \<Rightarrow> (string \<times> int) list" where
  "company_max cs =
     map (\<lambda>c. (c, Max (set (map Renewal_No (filter (\<lambda>r. Company r = c) cs)))))
       (sort (remdups (map Company cs)))"

definition value_counts_sorted :: "int list \<Rightarrow> (int \<times> nat) list" where
  "value_counts_sorted xs = map (\<lambda>v. (v, count_list xs v)) (sort (remdups xs))"

definition renewal_counts_rows :: "client list \<Rightarrow> (int \<times> nat) list" where
  "renewal_counts_rows cs = value_counts_sorted (map snd (company_max cs))"

section \<open>3. Market Share by Department, 4. First Contracts Only\<close>

text \<open>
  Lines 62 and 73: \<^verbatim>\<open>groupby("Department")["Company"].count()\<close>. Lines 63 and 74:
  \<^verbatim>\<open>round(100 * counts / counts.sum(), 1)\<close>. Line 72 keeps the rows whose renewal number
  is 0.
\<close>

definition dept_count :: "client list \<Rightarrow> (string \<times> nat) list" where
  "dept_count cs =
     map (\<lambda>d. (d, length (filter (\<lambda>c. Department c = d) cs)))
       (sort (remdups (map Department cs)))"

definition Share_col :: "(string \<times> nat) list \<Rightarrow> fval list" where
  "Share_col rows =
     (let total = sum_list (map snd rows)
      in map (\<lambda>(d, n). fround 1 (fdiv (Fin (of_nat (100 * n))) (Fin (of_nat total)))) rows)"

definition first_contracts_rows :: "client list \<Rightarrow> client list" where
  "first_contracts_rows cs = filter (\<lambda>c. Renewal_No c = 0) cs"

section \<open>5. Client Retention\<close>

text \<open>Line 83: \<^verbatim>\<open>sorted(clients["Year"].unique())\<close>.\<close>

definition years_sorted :: "client list \<Rightarrow> int list" where
  "years_sorted cs = sort (remdups (map Year cs))"

text \<open>Lines 86 and 87: \<^verbatim>\<open>set(clients[clients["Year"] == year]["Company"])\<close>.\<close>

definition companies_in :: "client list \<Rightarrow> int \<Rightarrow> string set" where
  "companies_in cs y = set (map Company (filter (\<lambda>c. Year c = y) cs))"

record churn_row =
  Year_ch :: int
  Churn :: fval
  Retention :: fval

text \<open>
  Lines 88 to 93, the body of the loop. The division of line 89 is Python's, which would
  raise on a zero divisor; it stands under the guard of line 88.
\<close>

definition churn_entry :: "int \<Rightarrow> string set \<Rightarrow> string set \<Rightarrow> churn_row" where
  "churn_entry year current next_year =
     (if card current > 0 then
        let churn_rate = fround 1 (Fin (of_nat (100 * card (current - next_year)) / of_nat (card current)));
            retention_rate = fsub (Fin 100) churn_rate
        in \<lparr>Year_ch = year, Churn = churn_rate, Retention = retention_rate\<rparr>
      else \<lparr>Year_ch = year, Churn = NaN, Retention = NaN\<rparr>)"

text \<open>Lines 84 to 93: \<^verbatim>\<open>for i, year in enumerate(years[:-1])\<close>, reading \<^verbatim>\<open>years[i+1]\<close>.\<close>

definition churn_data :: "client list \<Rightarrow> churn_row list" where
  "churn_data cs =
     (let years = years_sorted cs
      in map (\<lambda>(i, year). churn_entry year (companies_in cs year) (companies_in cs (years ! (i + 1))))
           (enumerate 0 (butlast years)))"

section \<open>10. Key Clients Contribution\<close>

record contract_row =
  Department_cc :: string
  Company_cc :: string
  Renewal_No_cc :: int

text \<open>Line 119: \<^verbatim>\<open>clients.groupby(["Department", "Company"])["Renewal_No"].max()\<close>.\<close>

definition client_contracts_rows :: "client list \<Rightarrow> contract_row list" where
  "client_contracts_rows cs =
     map (\<lambda>(d, c). \<lparr>Department_cc = d, Company_cc = c,
            Renewal_No_cc = Max (set (map Renewal_No
              (filter (\<lambda>r. Department r = d \<and> Company r = c) cs)))\<rparr>)
       (sort (remdups (map (\<lambda>r. (Department r, Company r)) cs)))"

text \<open>Line 120: \<^verbatim>\<open>client_contracts["Renewal_No"] + 1\<close>.\<close>

definition Total_Contracts_col :: "contract_row list \<Rightarrow> int list" where
  "Total_Contracts_col rows = map (\<lambda>r. Renewal_No_cc r + 1) rows"

text \<open>
  \<^verbatim>\<open>pd.merge(left, right, on=key, how="left")\<close>: every left row in order, once for each
  right row with its key, in the order of the right table; a left row with no match is kept
  once, with nulls on the right.
\<close>

definition merge_left :: "('l \<Rightarrow> 'k) \<Rightarrow> ('r \<Rightarrow> 'k) \<Rightarrow> 'l list \<Rightarrow> 'r list \<Rightarrow> ('l \<times> 'r option) list" where
  "merge_left kl kr ls rs =
     concat (map (\<lambda>l. case filter (\<lambda>r. kr r = kl l) rs of
                         [] \<Rightarrow> [(l, None)]
                       | ms \<Rightarrow> map (\<lambda>r. (l, Some r)) ms) ls)"

record merged_row =
  Department_m :: string
  Company_m :: string
  Renewal_No_m :: int
  Total_Contracts_m :: int
  Year_m :: "int option"
  Total_Profit_m :: fval

text \<open>
  Line 121: the merge of \<^verbatim>\<open>client_contracts\<close> (rows with their \<^verbatim>\<open>Total_Contracts\<close>) with
  the columns Department, Year and Total Profit of \<^verbatim>\<open>finance\<close>, on Department.
\<close>

definition merge_finance :: "(contract_row \<times> int) list \<Rightarrow> finance_row list \<Rightarrow> merged_row list" where
  "merge_finance left fin =
     map (\<lambda>((l, tc), f).
            \<lparr>Department_m = Department_cc l, Company_m = Company_cc l,
             Renewal_No_m = Renewal_No_cc l, Total_Contracts_m = tc,
             Year_m = map_option Year_f f,
             Total_Profit_m = (case f of None \<Rightarrow> NaN | Some r \<Rightarrow> Total_Profit r)\<rparr>)
       (merge_left (\<lambda>(l, tc). Department_cc l) Department_f left fin)"

text \<open>Line 122: \<^verbatim>\<open>client_contracts.groupby("Department")["Total_Contracts"].sum()\<close>.\<close>

definition dept_totals_rows :: "(contract_row \<times> int) list \<Rightarrow> (string \<times> int) list" where
  "dept_totals_rows left =
     map (\<lambda>d. (d, sum_list (map snd (filter (\<lambda>(l, tc). Department_cc l = d) left))))
       (sort (remdups (map (\<lambda>(l, tc). Department_cc l) left)))"

text \<open>Line 123: the merge with \<^verbatim>\<open>dept_totals\<close> on Department.\<close>

definition merge_totals :: "merged_row list \<Rightarrow> (string \<times> int) list \<Rightarrow> (merged_row \<times> fval) list" where
  "merge_totals rows totals =
     map (\<lambda>(m, t). (m, case t of None \<Rightarrow> NaN | Some (d, n) \<Rightarrow> Fin (of_int n)))
       (merge_left Department_m fst rows totals)"

text \<open>Line 124: \<^verbatim>\<open>round(100 * Total_Contracts / Dept_Total_Contracts, 1)\<close>.\<close>

definition contracts_share :: "int \<Rightarrow> fval \<Rightarrow> fval" where
  "contracts_share tc dtc = fround 1 (fdiv (Fin (of_int (100 * tc))) dtc)"

text \<open>Line 125: \<^verbatim>\<open>round(Contracts_Share_% / 100 * Total Profit, 2)\<close>.\<close>

definition estimated_profit :: "fval \<Rightarrow> fval \<Rightarrow> fval" where
  "estimated_profit share tp = fround 2 (fmul (fdiv share (Fin 100)) tp)"

record profit_row = merged_row +
  Dept_Total_Contracts :: fval
  Contracts_Share :: fval
  Estimated_Profit :: fval

definition full_row :: "merged_row \<Rightarrow> fval \<Rightarrow> fval \<Rightarrow> fval \<Rightarrow> profit_row" where
  "full_row m dtc share est =
     \<lparr>Department_m = Department_m m, Company_m = Company_m m, Renewal_No_m = Renewal_No_m m,
      Total_Contracts_m = Total_Contracts_m m, Year_m = Year_m m, Total_Profit_m = Total_Profit_m m,
      Dept_Total_Contracts = dtc, Contracts_Share = share, Estimated_Profit = est\<rparr>"

text \<open>
  Line 126: \<^verbatim>\<open>sort_values(["Department", "Estimated_Profit"], ascending=[True, False])\<close>,
  a stable sort on the pair of keys; nulls of a key go last. \<open>desc_key\<close> is the place of
  a value in that descending order.
\<close>

fun desc_key :: "fval \<Rightarrow> nat \<times> rat" where
  "desc_key PInf = (0, 0)"
| "desc_key (Fin x) = (1, - x)"
| "desc_key NInf = (2, 0)"
| "desc_key NaN = (3, 0)"

definition sort_values :: "profit_row list \<Rightarrow> profit_row list" where
  "sort_values rows = sort_key (\<lambda>r. (Department_m r, desc_key (Estimated_Profit r))) rows"

text \<open>
  Line 127: \<^verbatim>\<open>groupby("Department").head(15)\<close> keeps, in the order of the table, the rows
  that fewer than \<open>n\<close> rows of their group precede; \<open>seen\<close> holds the keys of the rows passed.
\<close>

fun group_head :: "nat \<Rightarrow> ('a \<Rightarrow> 'k) \<Rightarrow> 'k list \<Rightarrow> 'a list \<Rightarrow> 'a list" where
  "group_head n key seen [] = []"
| "group_head n key seen (x # xs) =
     (if count_list seen (key x) < n then x # group_head n key (key x # seen) xs
      else group_head n key (key x # seen) xs)"

text \<open>Lines 119 to 125, and lines 126 and 127.\<close>

definition merged_clients_profit_rows :: "client list \<Rightarrow> finance_row list \<Rightarrow> profit_row list" where
  "merged_clients_profit_rows cs fin =
     (let client_contracts = client_contracts_rows cs;
          left = zip client_contracts (Total_Contracts_col client_contracts);
          merged = merge_finance left fin;
          dept_totals = dept_totals_rows left
      in map (\<lambda>(m, dtc).
                let share = contracts_share (Total_Contracts_m m) dtc
                in full_row m dtc share (estimated_profit share (Total_Profit_m m)))
           (merge_totals merged dept_totals))"

definition top_clients_15_rows :: "client list \<Rightarrow> finance_row list \<Rightarrow> profit_row list" where
  "top_clients_15_rows cs fin =
     group_head 15 Department_m [] (sort_values (merged_clients_profit_rows cs fin))"

section \<open>Notions used in the proofs\<close>

text \<open>
  The keys of the group-by of line 119, the maximum of a group, the rows one key gets from
  the merge of line 121, the total of a department (line 122), and a merged row with the
  columns of lines 123 to 125.
\<close>

definition pairs_of :: "client list \<Rightarrow> (string \<times> string) list" where
  "pairs_of cs = sort (remdups (map (\<lambda>r. (Department r, Company r)) cs))"

definition group_max :: "client list \<Rightarrow> string \<Rightarrow> string \<Rightarrow> int" where
  "group_max cs d c = Max (set (map Renewal_No (filter (\<lambda>r. Department r = d \<and> Company r = c) cs)))"

definition joined_row :: "client list \<Rightarrow> string \<Rightarrow> string \<Rightarrow> finance_row option \<Rightarrow> merged_row" where
  "joined_row cs d c f =
     \<lparr>Department_m = d, Company_m = c, Renewal_No_m = group_max cs d c,
      Total_Contracts_m = group_max cs d c + 1, Year_m = map_option Year_f f,
      Total_Profit_m = (case f of None \<Rightarrow> NaN | Some r \<Rightarrow> Total_Profit r)\<rparr>"

definition joined_rows :: "client list \<Rightarrow> finance_row list \<Rightarrow> string \<times> string \<Rightarrow> merged_row list" where
  "joined_rows cs fin p =
     (case filter (\<lambda>f. Department_f f = fst p) fin of
        [] \<Rightarrow> [joined_row cs (fst p) (snd p) None]
      | ms \<Rightarrow> map (\<lambda>f. joined_row cs (fst p) (snd p) (Some f)) ms)"

definition dept_total :: "client list \<Rightarrow> string \<Rightarrow> int" where
  "dept_total cs d =
     sum_list (map (\<lambda>p. group_max cs (fst p) (snd p) + 1) (filter (\<lambda>p. fst p = d) (pairs_of cs)))"

definition complete_row :: "client list \<Rightarrow> merged_row \<Rightarrow> profit_row" where
  "complete_row cs m =
     (let dtc = Fin (of_int (dept_total cs (Department_m m)));
          share = contracts_share (Total_Contracts_m m) dtc
      in full_row m dtc share (estimated_profit share (Total_Profit_m m)))"

text \<open>
  \<open>desc_before a b\<close>: the value \<open>a\<close> may stand before \<open>b\<close> in a descending order that puts
  nulls last.
\<close>

fun desc_before :: "fval \<Rightarrow> fval \<Rightarrow> bool" where
  "desc_before a NaN = True"
| "desc_before NaN b = False"
| "desc_before PInf b = True"
| "desc_before a NInf = True"
| "desc_before (Fin x) (Fin y) = (y \<le> x)"
| "desc_before a b = False"

section \<open>Example tables\<close>

definition example_clients :: "client list" where
  "example_clients =
    [\<lparr>Company = ''A'', Department = ''Sales'', Renewal_No = 0, Year = 2020\<rparr>,
     \<lparr>Company = ''A'', Department = ''Sales'', Renewal_No = 1, Year = 2021\<rparr>,
     \<lparr>Company = ''B'', Department = ''Sales'', Renewal_No = 0, Year = 2020\<rparr>]"

definition example_finance :: "finance_row list" where
  "example_finance =
    [\<lparr>Department_f = ''Sales'', Year_f = 2020, Total_Sales = Fin 1000, Total_Profit = Fin 250\<rparr>,
     \<lparr>Department_f = ''Sales'', Year_f = 2021, Total_Sales = Fin 2000, Total_Profit = Fin 900\<rparr>,
     \<lparr>Department_f = ''IT'', Year_f = 2021, Total_Sales = Fin 2000, Total_Profit = Fin 900\<rparr>]"

definition six_departments :: "client list" where
  "six_departments =
     map (\<lambda>d. \<lparr>Company = ''A'', Department = d, Renewal_No = 0, Year = 2020\<rparr>)
       [''D1'', ''D2'', ''D3'', ''D4'', ''D5'', ''D6'']"

definition sixteen_clients :: "client list" where
  "sixteen_clients =
     map (\<lambda>c. \<lparr>Company = c, Department = ''D'', Renewal_No = 0, Year = 2020\<rparr>)
       [''C01'', ''C02'', ''C03'', ''C04'', ''C05'', ''C06'', ''C07'', ''C08'',
        ''C09'', ''C10'', ''C11'', ''C12'', ''C13'', ''C14'', ''C15'', ''C16'']"


definition x_finance :: "finance_row list" where
  "x_finance = [\<lparr>Department_f = ''X'', Year_f = 2020, Total_Sales = Fin 1000, Total_Profit = Fin 100\<rparr>]"

section \<open>The script, line by line\<close>

text \<open>
  The module runs from top to bottom. Its variables are the fields of a state, \<open>None\<close>
  for a variable not yet assigned. A table is its rows together with the columns the script
  assigns to it after creating it, each \<open>None\<close> until it is assigned. Reading a variable
  not yet assigned raises \<^verbatim>\<open>NameError\<close>, a column not yet assigned \<^verbatim>\<open>KeyError\<close>;
  \<^verbatim>\<open>ValueError\<close> stands for whatever a failed cast raises.
\<close>

datatype error = ValueError | NameError | KeyError

text \<open>
  Line 36: \<^verbatim>\<open>finance["Year"].astype(int)\<close>. The cast of one cell is the parameter
  \<open>cast\<close>, \<open>None\<close> where it raises; the first cell that fails raises for the column.
\<close>

fun astype_int :: "('y \<Rightarrow> int option) \<Rightarrow> 'y raw_finance list \<Rightarrow> error + finance_row list" where
  "astype_int cast [] = Inr []"
| "astype_int cast (r # rs) =
     (case cast (Year_fr r) of
        None \<Rightarrow> Inl ValueError
      | Some y \<Rightarrow>
          (case astype_int cast rs of
             Inl e \<Rightarrow> Inl e
           | Inr rows \<Rightarrow>
               Inr (\<lparr>Department_f = Department_fr r, Year_f = y,
                     Total_Sales = Total_Sales_fr r, Total_Profit = Total_Profit_fr r\<rparr> # rows)))"

record finance_tab =
  f_rows :: "finance_row list"
  Profit_Margin :: "fval list option"

record cpy_tab =
  cpy_rows :: "(int \<times> nat) list"
  Growth :: "fval list option"

record share_tab =
  share_rows :: "(string \<times> nat) list"
  Share :: "fval list option"

record cc_tab =
  cc_rows :: "contract_row list"
  Total_Contracts :: "int list option"

record merged_tab =
  m_rows :: "merged_row list"
  Dept_Total_Contracts_col :: "fval list option"
  Contracts_Share_col :: "fval list option"
  Estimated_Profit_col :: "fval list option"

record state =
  clients :: "client list"
  finance :: finance_tab
  clients_per_year :: "cpy_tab option"
  renewal_counts :: "(int \<times> nat) list option"
  dept_share :: "share_tab option"
  first_contracts :: "client list option"
  first_share :: "share_tab option"
  churn_df :: "churn_row list option"
  client_contracts :: "cc_tab option"
  merged_clients_profit :: "merged_tab option"
  dept_totals :: "(string \<times> int) list option"
  top_clients_per_dept :: "profit_row list option"
  top_clients_15 :: "profit_row list option"

text \<open>
  Lines 30 and 36, and the state in which the analyses start: the two normalized tables,
  and nothing else assigned.
\<close>

definition init_state :: "client list \<Rightarrow> finance_row list \<Rightarrow> state" where
  "init_state cs fin =
     \<lparr>clients = cs, finance = \<lparr>f_rows = fin, Profit_Margin = None\<rparr>,
      clients_per_year = None, renewal_counts = None, dept_share = None,
      first_contracts = None, first_share = None, churn_df = None,
      client_contracts = None, merged_clients_profit = None, dept_totals = None,
      top_clients_per_dept = None, top_clients_15 = None\<rparr>"

definition normalize :: "('y \<Rightarrow> int option) \<Rightarrow> raw_client list \<Rightarrow> 'y raw_finance list \<Rightarrow> error + state" where
  "normalize cast raw_clients raw_finance =
     (let cs = dropna raw_clients
      in case astype_int cast raw_finance of
           Inl e \<Rightarrow> Inl e
         | Inr fin \<Rightarrow> Inr (init_state cs fin))"

text \<open>
  The assignments of lines 41 to 127. \<open>L51\<close> stands for lines 51 and 52 (line 52 names
  the two columns of the table of line 51), \<open>L83\<close> for lines 83 to 95.
\<close>

datatype line =
  L41 | L42 | L51 | L62 | L63 | L72 | L73 | L74 | L83 | L112
| L119 | L120 | L121 | L122 | L123 | L124 | L125 | L126 | L127

text \<open>
  The values a column of the left table has in the rows of a left merge.
\<close>

definition carry :: "('l \<Rightarrow> 'k) \<Rightarrow> ('r \<Rightarrow> 'k) \<Rightarrow> 'l list \<Rightarrow> 'r list \<Rightarrow> 'a list \<Rightarrow> 'a list" where
  "carry kl kr ls rs col = map (\<lambda>((l, v), r). v) (merge_left (\<lambda>(l, v). kl l) kr (zip ls col) rs)"

text \<open>
  One line of the script. Lines 42, 63, 74, 112, 120, 124 and 125 assign a column of a
  table that exists; the others assign a variable. In lines 121 and 126 the model asks for
  the columns the script has assigned by then.
\<close>

fun exec :: "line \<Rightarrow> state \<Rightarrow> error + state" where
  "exec L41 s =
     Inr (s\<lparr>clients_per_year := Some \<lparr>cpy_rows = clients_per_year_rows (clients s), Growth = None\<rparr>\<rparr>)"
| "exec L42 s =
     (case clients_per_year s of
        None \<Rightarrow> Inl NameError
      | Some t \<Rightarrow> Inr (s\<lparr>clients_per_year := Some (t\<lparr>Growth := Some (Growth_col (cpy_rows t))\<rparr>)\<rparr>))"
| "exec L51 s = Inr (s\<lparr>renewal_counts := Some (renewal_counts_rows (clients s))\<rparr>)"
| "exec L62 s =
     Inr (s\<lparr>dept_share := Some \<lparr>share_rows = dept_count (clients s), Share = None\<rparr>\<rparr>)"
| "exec L63 s =
     (case dept_share s of
        None \<Rightarrow> Inl NameError
      | Some t \<Rightarrow> Inr (s\<lparr>dept_share := Some (t\<lparr>Share := Some (Share_col (share_rows t))\<rparr>)\<rparr>))"
| "exec L72 s = Inr (s\<lparr>first_contracts := Some (first_contracts_rows (clients s))\<rparr>)"
| "exec L73 s =
     (case first_contracts s of
        None \<Rightarrow> Inl NameError
      | Some fc \<Rightarrow> Inr (s\<lparr>first_share := Some \<lparr>share_rows = dept_count fc, Share = None\<rparr>\<rparr>))"
| "exec L74 s =
     (case first_share s of
        None \<Rightarrow> Inl NameError
      | Some t \<Rightarrow> Inr (s\<lparr>first_share := Some (t\<lparr>Share := Some (Share_col (share_rows t))\<rparr>)\<rparr>))"
| "exec L83 s = Inr (s\<lparr>churn_df := Some (churn_data (clients s))\<rparr>)"
| "exec L112 s =
     Inr (s\<lparr>finance := (finance s)\<lparr>Profit_Margin := Some (Profit_Margin_col (f_rows (finance s)))\<rparr>\<rparr>)"
| "exec L119 s =
     Inr (s\<lparr>client_contracts :=
            Some \<lparr>cc_rows = client_contracts_rows (clients s), Total_Contracts = None\<rparr>\<rparr>)"
| "exec L120 s =
     (case client_contracts s of
        None \<Rightarrow> Inl NameError
      | Some t \<Rightarrow>
          Inr (s\<lparr>client_contracts := Some (t\<lparr>Total_Contracts := Some (Total_Contracts_col (cc_rows t))\<rparr>)\<rparr>))"
| "exec L121 s =
     (case client_contracts s of
        None \<Rightarrow> Inl NameError
      | Some t \<Rightarrow>
          (case Total_Contracts t of
             None \<Rightarrow> Inl KeyError
           | Some tcs \<Rightarrow>
               Inr (s\<lparr>merged_clients_profit :=
                      Some \<lparr>m_rows = merge_finance (zip (cc_rows t) tcs) (f_rows (finance s)),
                            Dept_Total_Contracts_col = None, Contracts_Share_col = None,
                            Estimated_Profit_col = None\<rparr>\<rparr>)))"
| "exec L122 s =
     (case client_contracts s of
        None \<Rightarrow> Inl NameError
      | Some t \<Rightarrow>
          (case Total_Contracts t of
             None \<Rightarrow> Inl KeyError
           | Some tcs \<Rightarrow> Inr (s\<lparr>dept_totals := Some (dept_totals_rows (zip (cc_rows t) tcs))\<rparr>)))"
| "exec L123 s =
     (case merged_clients_profit s of
        None \<Rightarrow> Inl NameError
      | Some m \<Rightarrow>
          (case dept_totals s of
             None \<Rightarrow> Inl NameError
           | Some totals \<Rightarrow>
               let merged = merge_totals (m_rows m) totals
               in Inr (s\<lparr>merged_clients_profit :=
                         Some \<lparr>m_rows = map fst merged,
                               Dept_Total_Contracts_col = Some (map snd merged),
                               Contracts_Share_col =
                                 map_option (carry Department_m fst (m_rows m) totals) (Contracts_Share_col m),
                               Estimated_Profit_col =
                                 map_option (carry Department_m fst (m_rows m) totals) (Estimated_Profit_col m)\<rparr>\<rparr>)))"
| "exec L124 s =
     (case merged_clients_profit s of
        None \<Rightarrow> Inl NameError
      | Some m \<Rightarrow>
          (case Dept_Total_Contracts_col m of
             None \<Rightarrow> Inl KeyError
           | Some dtc \<Rightarrow>
               Inr (s\<lparr>merged_clients_profit :=
                      Some (m\<lparr>Contracts_Share_col :=
                        Some (map2 contracts_share (map Total_Contracts_m (m_rows m)) dtc)\<rparr>)\<rparr>)))"
| "exec L125 s =
     (case merged_clients_profit s of
        None \<Rightarrow> Inl NameError
      | Some m \<Rightarrow>
          (case Contracts_Share_col m of
             None \<Rightarrow> Inl KeyError
           | Some share \<Rightarrow>
               Inr (s\<lparr>merged_clients_profit :=
                      Some (m\<lparr>Estimated_Profit_col :=
                        Some (map2 estimated_profit share (map Total_Profit_m (m_rows m)))\<rparr>)\<rparr>)))"
| "exec L126 s =
     (case merged_clients_profit s of
        None \<Rightarrow> Inl NameError
      | Some m \<Rightarrow>
          (case (Dept_Total_Contracts_col m, Contracts_Share_col m, Estimated_Profit_col m) of
             (Some dtc, Some share, Some est) \<Rightarrow>
               Inr (s\<lparr>top_clients_per_dept :=
                      Some (sort_values
                        (map (\<lambda>(m, dtc, share, est). full_row m dtc share est)
                           (zip (m_rows m) (zip dtc (zip share est)))))\<rparr>)
           | _ \<Rightarrow> Inl KeyError))"
| "exec L127 s =
     (case top_clients_per_dept s of
        None \<Rightarrow> Inl NameError
      | Some t \<Rightarrow> Inr (s\<lparr>top_clients_15 := Some (group_head 15 Department_m [] t)\<rparr>))"

definition script :: "line list" where
  "script = [L41, L42, L51, L62, L63, L72, L73, L74, L83, L112,
             L119, L120, L121, L122, L123, L124, L125, L126, L127]"

fun run :: "line list \<Rightarrow> state \<Rightarrow> error + state" where
  "run [] s = Inr s"
| "run (l # ls) s = (case exec l s of Inl e \<Rightarrow> Inl e | Inr s' \<Rightarrow> run ls s')"

definition analyze :: "state \<Rightarrow> error + state" where
  "analyze s = run script s"

definition pipeline :: "('y \<Rightarrow> int option) \<Rightarrow> raw_client list \<Rightarrow> 'y raw_finance list \<Rightarrow> error + state" where
  "pipeline cast raw_clients raw_finance =
     (case normalize cast raw_clients raw_finance of
        Inl e \<Rightarrow> Inl e
      | Inr s \<Rightarrow> analyze s)"

section \<open>Notions of the frame of a line\<close>

text \<open>
  The variables of the script; the variable a line assigns to; two states agreeing on a
  variable; the numbered section of the source a line stands in, and the section that
  creates a variable (none for the two input tables).
\<close>

datatype var =
  V_clients | V_finance | V_clients_per_year | V_renewal_counts | V_dept_share
| V_first_contracts | V_first_share | V_churn_df | V_client_contracts
| V_merged_clients_profit | V_dept_totals | V_top_clients_per_dept | V_top_clients_15

fun target :: "line \<Rightarrow> var" where
  "target L41 = V_clients_per_year"
| "target L42 = V_clients_per_year"
| "target L51 = V_renewal_counts"
| "target L62 = V_dept_share"
| "target L63 = V_dept_share"
| "target L72 = V_first_contracts"
| "target L73 = V_first_share"
| "target L74 = V_first_share"
| "target L83 = V_churn_df"
| "target L112 = V_finance"
| "target L119 = V_client_contracts"
| "target L120 = V_client_contracts"
| "target L121 = V_merged_clients_profit"
| "target L122 = V_dept_totals"
| "target L123 = V_merged_clients_profit"
| "target L124 = V_merged_clients_profit"
| "target L125 = V_merged_clients_profit"
| "target L126 = V_top_clients_per_dept"
| "target L127 = V_top_clients_15"

fun same_on :: "var \<Rightarrow> state \<Rightarrow> state \<Rightarrow> bool" where
  "same_on V_clients s s' = (clients s' = clients s)"
| "same_on V_finance s s' = (finance s' = finance s)"
| "same_on V_clients_per_year s s' = (clients_per_year s' = clients_per_year s)"
| "same_on V_renewal_counts s s' = (renewal_counts s' = renewal_counts s)"
| "same_on V_dept_share s s' = (dept_share s' = dept_share s)"
| "same_on V_first_contracts s s' = (first_contracts s' = first_contracts s)"
| "same_on V_first_share s s' = (first_share s' = first_share s)"
| "same_on V_churn_df s s' = (churn_df s' = churn_df s)"
| "same_on V_client_contracts s s' = (client_contracts s' = client_contracts s)"
| "same_on V_merged_clients_profit s s' = (merged_clients_profit s' = merged_clients_profit s)"
| "same_on V_dept_totals s s' = (dept_totals s' = dept_totals s)"
| "same_on V_top_clients_per_dept s s' = (top_clients_per_dept s' = top_clients_per_dept s)"
| "same_on V_top_clients_15 s s' = (top_clients_15 s' = top_clients_15 s)"

fun section_of :: "line \<Rightarrow> nat" where
  "section_of L41 = 1"
| "section_of L42 = 1"
| "section_of L51 = 2"
| "section_of L62 = 3"
| "section_of L63 = 3"
| "section_of L72 = 4"
| "section_of L73 = 4"
| "section_of L74 = 4"
| "section_of L83 = 5"
| "section_of L112 = 6"
| "section_of l = 10"

fun created_by :: "var \<Rightarrow> nat option" where
  "created_by V_clients = None"
| "created_by V_finance = None"
| "created_by V_clients_per_year = Some 1"
| "created_by V_renewal_counts = Some 2"
| "created_by V_dept_share = Some 3"
| "created_by V_first_contracts = Some 4"
| "created_by V_first_share = Some 4"
| "created_by V_churn_df = Some 5"
| "created_by v = Some 10"

text \<open>
  A column is kept: once assigned it has the same values. A table grows: it keeps its rows
  and the columns it has. A state grows: the rows of the two input tables are the same, and
  every table assigned is still there and has grown.
\<close>

definition col_grows :: "'a option \<Rightarrow> 'a option \<Rightarrow> bool" where
  "col_grows a b = (case a of None \<Rightarrow> True | Some x \<Rightarrow> b = Some x)"

fun opt_grows :: "('a \<Rightarrow> 'a \<Rightarrow> bool) \<Rightarrow> 'a option \<Rightarrow> 'a option \<Rightarrow> bool" where
  "opt_grows R None b = True"
| "opt_grows R (Some x) None = False"
| "opt_grows R (Some x) (Some y) = R x y"

definition share_grows :: "share_tab \<Rightarrow> share_tab \<Rightarrow> bool" where
  "share_grows t t' = (share_rows t' = share_rows t \<and> col_grows (Share t) (Share t'))"

definition merged_grows :: "merged_tab \<Rightarrow> merged_tab \<Rightarrow> bool" where
  "merged_grows t t' =
     (m_rows t' = m_rows t
      \<and> col_grows (Dept_Total_Contracts_col t) (Dept_Total_Contracts_col t')
      \<and> col_grows (Contracts_Share_col t) (Contracts_Share_col t')
      \<and> col_grows (Estimated_Profit_col t) (Estimated_Profit_col t'))"

definition grows :: "state \<Rightarrow> state \<Rightarrow> bool" where
  "grows s s' =
     (clients s' = clients s
      \<and> f_rows (finance s') = f_rows (finance s)
      \<and> col_grows (Profit_Margin (finance s)) (Profit_Margin (finance s'))
      \<and> opt_grows (\<lambda>t t'. cpy_rows t' = cpy_rows t \<and> col_grows (Growth t) (Growth t'))
           (clients_per_year s) (clients_per_year s')
      \<and> opt_grows (=) (renewal_counts s) (renewal_counts s')
      \<and> opt_grows share_grows (dept_share s) (dept_share s')
      \<and> opt_grows (=) (first_contracts s) (first_contracts s')
      \<and> opt_grows share_grows (first_share s) (first_share s')
      \<and> opt_grows (=) (churn_df s) (churn_df s')
      \<and> opt_grows (\<lambda>t t'. cc_rows t' = cc_rows t \<and> col_grows (Total_Contracts t) (Total_Contracts t'))
           (client_contracts s) (client_contracts s')
      \<and> opt_grows merged_grows (merged_clients_profit s) (merged_clients_profit s')
      \<and> opt_grows (=) (dept_totals s) (dept_totals s')
      \<and> opt_grows (=) (top_clients_per_dept s) (top_clients_per_dept s')
      \<and> opt_grows (=) (top_clients_15 s) (top_clients_15 s'))"

text \<open>
  Every line of a list runs without error and makes the state grow.
\<close>

fun all_grow :: "line list \<Rightarrow> state \<Rightarrow> bool" where
  "all_grow [] s = True"
| "all_grow (l # ls) s = (case exec l s of Inl e \<Rightarrow> False | Inr s' \<Rightarrow> grows s s' \<and> all_grow ls s')"

section \<open>Arithmetic of rounding\<close>

lemma floor_rat_numeral [simp]:
  "\<lfloor>numeral a / numeral b :: rat\<rfloor> = numeral a div numeral b"
  using floor_divide_of_int_eq [of "numeral a" "numeral b", where ?'a = rat] by simp

lemma floor_rat_neg_numeral [simp]:
  "\<lfloor>- (numeral a / numeral b) :: rat\<rfloor> = - numeral a div numeral b"
  using floor_divide_of_int_eq [of "- numeral a" "numeral b", where ?'a = rat] by simp

lemma round_half_even_error: "\<bar>of_int (round_half_even x) - x\<bar> \<le> 1 / 2"
proof -
  have "of_int \<lfloor>x\<rfloor> \<le> x" and "x < of_int \<lfloor>x\<rfloor> + 1"
    by linarith+
  then show ?thesis
    unfolding round_half_even_def Let_def by (auto simp: abs_le_iff)
qed

lemma round_to_error: "\<bar>round_to d x - x\<bar> \<le> 1 / (2 * 10 ^ d)"
proof -
  have pos: "(0::rat) < 10 ^ d" by simp
  have "round_to d x - x = (of_int (round_half_even (x * 10 ^ d)) - x * 10 ^ d) / 10 ^ d"
    unfolding round_to_def by (simp add: diff_divide_distrib)
  then have "\<bar>round_to d x - x\<bar> = \<bar>of_int (round_half_even (x * 10 ^ d)) - x * 10 ^ d\<bar> / 10 ^ d"
    by (simp add: abs_divide)
  also have "\<dots> \<le> (1 / 2) / 10 ^ d"
    by (rule divide_right_mono [OF round_half_even_error]) simp
  finally show ?thesis by simp
qed

section \<open>Financial Performance: the margin\<close>




section \<open>Client Retention\<close>

lemma churn_data_length: "length (churn_data cs) = length (years_sorted cs) - 1"
  by (simp add: churn_data_def Let_def)

lemma churn_data_nth:
  assumes "i < length (years_sorted cs) - 1"
  shows "churn_data cs ! i =
    churn_entry (years_sorted cs ! i) (companies_in cs (years_sorted cs ! i))
      (companies_in cs (years_sorted cs ! Suc i))"
  using assms by (simp add: churn_data_def Let_def nth_enumerate_eq nth_butlast)

lemma churn_entry_Year [simp]: "Year_ch (churn_entry y A B) = y"
  by (simp add: churn_entry_def Let_def)


lemma churn_entry_value:
  "churn_entry year A B =
    (if card A = 0 then \<lparr>Year_ch = year, Churn = NaN, Retention = NaN\<rparr>
     else \<lparr>Year_ch = year,
           Churn = Fin (round_to 1 (100 * of_nat (card (A - B)) / of_nat (card A))),
           Retention = Fin (100 - round_to 1 (100 * of_nat (card (A - B)) / of_nat (card A)))\<rparr>)"
  by (simp add: churn_entry_def Let_def)


lemma companies_in_nonempty:
  assumes "y \<in> set (years_sorted cs)"
  shows "companies_in cs y \<noteq> {}" "0 < card (companies_in cs y)"
proof -
  from assms obtain c where "c \<in> set cs" "Year c = y"
    by (auto simp: years_sorted_def)
  then have "Company c \<in> companies_in cs y"
    by (auto simp: companies_in_def)
  then show "companies_in cs y \<noteq> {}" by blast
  then show "0 < card (companies_in cs y)"
    by (simp add: companies_in_def card_gt_0_iff)
qed

lemma churn_data_defined:
  assumes "row \<in> set (churn_data cs)"
  shows "\<exists>q. Churn row = Fin q \<and> Retention row = Fin (100 - q)"
proof -
  from assms obtain i where i: "i < length (churn_data cs)" and row: "row = churn_data cs ! i"
    by (auto simp: in_set_conv_nth)
  from i have i': "i < length (years_sorted cs) - 1"
    by (simp add: churn_data_length)
  then have "years_sorted cs ! i \<in> set (years_sorted cs)" by simp
  then have "0 < card (companies_in cs (years_sorted cs ! i))"
    by (rule companies_in_nonempty)
  then show ?thesis
    unfolding row churn_data_nth [OF i'] by (simp add: churn_entry_value)
qed



text \<open>
  C9. Every year of the sequence has a company, so the guard of line 88 never fails: in
  every row of the table the churn is a finite number and the retention is 100 minus it.
\<close>

theorem churn_never_null:
  "(\<forall>y \<in> set (years_sorted cs). companies_in cs y \<noteq> {} \<and> 0 < card (companies_in cs y))
   \<and> (\<forall>row \<in> set (churn_data cs). \<exists>q. Churn row = Fin q \<and> Retention row = Fin (100 - q))"
  using companies_in_nonempty [of _ cs] churn_data_defined [of _ cs] by blast

theorem churn_never_null_witness:
  "churn_data example_clients \<noteq> []
   \<and> (\<exists>q. Churn (hd (churn_data example_clients)) = Fin q
          \<and> Retention (hd (churn_data example_clients)) = Fin (100 - q))"
proof -
  have "length (churn_data example_clients) = 1"
    by (simp add: churn_data_length years_sorted_def example_clients_def)
  then have ne: "churn_data example_clients \<noteq> []"
    by auto
  then have "hd (churn_data example_clients) \<in> set (churn_data example_clients)"
    by simp
  with churn_never_null [of example_clients] ne show ?thesis
    by blast
qed

section \<open>Renewal Frequency\<close>

lemma sum_list_count_distinct:
  "sum_list (map (count_list xs) (sort (remdups xs))) = length xs"
proof -
  have "sum_list (map (count_list xs) (sort (remdups xs))) = sum (count_list xs) (set (sort (remdups xs)))"
    by (rule sum_list_distinct_conv_sum_set) simp
  also have "\<dots> = length xs"
    by (simp add: sum_count_set)
  finally show ?thesis .
qed









section \<open>Market Share\<close>

lemma dept_count_total: "sum_list (map snd (dept_count cs)) = length cs"
proof -
  let ?ks = "map Department cs"
  have "map snd (dept_count cs) = map (count_list ?ks) (sort (remdups ?ks))"
  proof -
    have "\<And>d. length (filter (\<lambda>c. Department c = d) cs) = count_list ?ks d"
      by (induction cs) auto
    then show ?thesis by (simp add: dept_count_def comp_def)
  qed
  then show ?thesis
    using sum_list_count_distinct [of ?ks] by simp
qed

lemma length_dept_count: "length (dept_count cs) = card (Department ` set cs)"
  by (simp add: dept_count_def length_remdups_card_conv)

lemma Share_col_value:
  assumes "cs \<noteq> []"
  shows "Share_col (dept_count cs) =
    map (\<lambda>(d, n). Fin (round_to 1 (100 * of_nat n / of_nat (length cs)))) (dept_count cs)"
  using assms by (simp add: Share_col_def dept_count_total Let_def)

lemma sum_list_round_error:
  fixes xs :: "rat list"
  shows "\<bar>sum_list (map (round_to 1) xs) - sum_list xs\<bar> \<le> of_nat (length xs) / 20"
proof (induction xs)
  case Nil
  then show ?case by simp
next
  case (Cons x xs)
  have a: "\<bar>round_to 1 x - x\<bar> \<le> 1 / 20"
    using round_to_error [of 1 x] by simp
  have "sum_list (map (round_to 1) (x # xs)) - sum_list (x # xs)
      = (round_to 1 x - x) + (sum_list (map (round_to 1) xs) - sum_list xs)"
    by simp
  then have "\<bar>sum_list (map (round_to 1) (x # xs)) - sum_list (x # xs)\<bar>
      \<le> \<bar>round_to 1 x - x\<bar> + \<bar>sum_list (map (round_to 1) xs) - sum_list xs\<bar>"
    by (metis abs_triangle_ineq)
  also have "\<dots> \<le> 1 / 20 + of_nat (length xs) / 20"
    by (rule add_mono [OF a Cons.IH])
  also have "\<dots> = of_nat (length (x # xs)) / 20"
    by (simp add: add_divide_distrib)
  finally show ?case .
qed

lemma exact_shares_sum_aux:
  fixes k :: rat
  shows "sum_list (map (\<lambda>r. 100 * of_nat (snd r) / k) rows) = 100 * of_nat (sum_list (map snd rows)) / k"
  by (induction rows) (simp_all add: add_divide_distrib distrib_left)

lemma exact_shares_sum:
  assumes "cs \<noteq> []"
  shows "sum_list (map (\<lambda>r. 100 * of_nat (snd r) / of_nat (length cs)) (dept_count cs)) = (100::rat)"
  using assms by (simp add: exact_shares_sum_aux dept_count_total)

lemma share_sum_bound:
  assumes "cs \<noteq> []"
  shows "\<bar>sum_list (map (\<lambda>(d, n). round_to 1 (100 * of_nat n / of_nat (length cs))) (dept_count cs)) - 100\<bar>
    \<le> of_nat (length (dept_count cs)) / 20"
proof -
  let ?x = "\<lambda>r::string \<times> nat. 100 * rat_of_nat (snd r) / of_nat (length cs)"
  have eq: "map (\<lambda>(d, n). round_to 1 (100 * of_nat n / of_nat (length cs))) (dept_count cs)
      = map (round_to 1) (map ?x (dept_count cs))"
    by (simp add: case_prod_unfold comp_def)
  have "\<bar>sum_list (map (round_to 1) (map ?x (dept_count cs))) - sum_list (map ?x (dept_count cs))\<bar>
      \<le> of_nat (length (map ?x (dept_count cs))) / 20"
    by (rule sum_list_round_error)
  then show ?thesis
    unfolding eq exact_shares_sum [OF assms] by simp
qed

text \<open>
  C6, as the code has it. For a view with at least one row (all rows, or those of
  \<open>first_contracts_rows\<close>), the total is the number of rows of the view, each share is
  \<open>round(100 * count / total, 1)\<close>, and the shares add up to 100 within 0.05 times the
  number of departments of the view.
\<close>

theorem market_share_sum:
  assumes "view \<noteq> []"
  shows "let rows = dept_count view; total = sum_list (map snd rows); shares = Share_col rows
    in total = length view
     \<and> shares = map (\<lambda>(d, n). Fin (round_to 1 (100 * of_nat n / of_nat total))) rows
     \<and> \<bar>sum_list (map the_fin shares) - 100\<bar> \<le> of_nat (length rows) / 20"
proof -
  have 1: "sum_list (map snd (dept_count view)) = length view"
    by (rule dept_count_total)
  have 2: "Share_col (dept_count view)
      = map (\<lambda>(d, n). Fin (round_to 1 (100 * of_nat n / of_nat (length view)))) (dept_count view)"
    by (rule Share_col_value [OF assms])
  have 3: "map the_fin (Share_col (dept_count view))
      = map (\<lambda>(d, n). round_to 1 (100 * of_nat n / of_nat (length view))) (dept_count view)"
    unfolding 2 by (simp add: comp_def case_prod_unfold)
  have 4: "\<bar>sum_list (map the_fin (Share_col (dept_count view))) - 100\<bar>
      \<le> of_nat (length (dept_count view)) / 20"
    unfolding 3 by (rule share_sum_bound [OF assms])
  show ?thesis
    unfolding Let_def 1 by (intro conjI refl 2 4)
qed

theorem market_share_sum_witness:
  "first_contracts_rows example_clients \<noteq> []
   \<and> Share_col (dept_count (first_contracts_rows example_clients)) = [Fin 100]
   \<and> \<bar>sum_list (map the_fin (Share_col (dept_count (first_contracts_rows example_clients)))) - 100\<bar>
       \<le> of_nat (length (dept_count (first_contracts_rows example_clients))) / 20"
proof -
  have ne: "first_contracts_rows example_clients \<noteq> []"
    by (simp add: first_contracts_rows_def example_clients_def)
  have "Share_col (dept_count (first_contracts_rows example_clients)) = [Fin 100]"
    by code_simp
  moreover from market_share_sum [OF ne]
  have "\<bar>sum_list (map the_fin (Share_col (dept_count (first_contracts_rows example_clients)))) - 100\<bar>
       \<le> of_nat (length (dept_count (first_contracts_rows example_clients))) / 20"
    unfolding Let_def by blast
  ultimately show ?thesis
    using ne by blast
qed

text \<open>
  C6 as the specification words it fails: six departments with one contract each get
  16.7 each, which add up to 100.2.
\<close>

theorem six_departments_counterexample:
  "Share_col (dept_count six_departments) =
    [Fin (167 / 10), Fin (167 / 10), Fin (167 / 10), Fin (167 / 10), Fin (167 / 10), Fin (167 / 10)]
   \<and> sum_list (map the_fin (Share_col (dept_count six_departments))) = 501 / 5
   \<and> \<not> \<bar>sum_list (map the_fin (Share_col (dept_count six_departments))) - 100\<bar> \<le> 1 / 10"
proof -
  have "Share_col (dept_count six_departments) =
    [Fin (167 / 10), Fin (167 / 10), Fin (167 / 10), Fin (167 / 10), Fin (167 / 10), Fin (167 / 10)]"
    by code_simp
  then show ?thesis by simp
qed

section \<open>Key Clients Contribution: the merged table\<close>

lemma zip_map_same: "zip (map f xs) (map g xs) = map (\<lambda>x. (f x, g x)) xs"
  by (induction xs) auto

lemma merge_left_unique:
  assumes "\<And>l. l \<in> set ls \<Longrightarrow> filter (\<lambda>r. kr r = kl l) rs = [h l]"
  shows "merge_left kl kr ls rs = map (\<lambda>l. (l, Some (h l))) ls"
  using assms unfolding merge_left_def by (induction ls) auto

lemma filter_key_map_distinct:
  assumes "distinct ks" and "k \<in> set ks"
  shows "filter (\<lambda>t. fst t = k) (map (\<lambda>k. (k, T k)) ks) = [(k, T k)]"
  using assms by (induction ks) (auto simp: filter_empty_conv)

lemma filter_concat_map_key:
  assumes "distinct ks" and "k \<in> set ks"
    and "\<And>k' x. k' \<in> set ks \<Longrightarrow> x \<in> set (g k') \<Longrightarrow> key x = k'"
  shows "filter (\<lambda>x. key x = k) (concat (map g ks)) = g k"
  using assms
proof (induction ks)
  case Nil
  then show ?case by simp
next
  case (Cons a ks)
  show ?case
  proof (cases "a = k")
    case True
    have 1: "filter (\<lambda>x. key x = k) (g a) = g a"
      using Cons.prems(3) [of a] True by (simp add: filter_id_conv)
    have 2: "filter (\<lambda>x. key x = k) (concat (map g ks)) = []"
      using Cons.prems True by (auto simp: filter_empty_conv)
    show ?thesis using 1 2 True by simp
  next
    case False
    have 1: "filter (\<lambda>x. key x = k) (g a) = []"
      using Cons.prems(3) [of a] False by (auto simp: filter_empty_conv)
    have 2: "filter (\<lambda>x. key x = k) (concat (map g ks)) = g k"
      using Cons.IH Cons.prems False by auto
    show ?thesis using 1 2 by simp
  qed
qed

lemma pairs_of_props:
  "distinct (pairs_of cs)" "sorted (pairs_of cs)"
  "set (pairs_of cs) = (\<lambda>r. (Department r, Company r)) ` set cs"
  by (simp_all add: pairs_of_def)

lemma left_eq:
  "zip (client_contracts_rows cs) (Total_Contracts_col (client_contracts_rows cs)) =
    map (\<lambda>p. (\<lparr>Department_cc = fst p, Company_cc = snd p, Renewal_No_cc = group_max cs (fst p) (snd p)\<rparr>,
               group_max cs (fst p) (snd p) + 1)) (pairs_of cs)"
  by (simp add: Total_Contracts_col_def client_contracts_rows_def pairs_of_def
      group_max_def case_prod_unfold comp_def zip_map_same del: set_map set_filter)

lemma merge_finance_eq:
  "merge_finance (zip (client_contracts_rows cs) (Total_Contracts_col (client_contracts_rows cs))) fin
    = concat (map (joined_rows cs fin) (pairs_of cs))"
  unfolding left_eq merge_finance_def merge_left_def
  apply (simp add: map_concat comp_def case_prod_unfold)
  apply (intro arg_cong [where f = concat] map_cong refl)
  apply (simp add: joined_rows_def joined_row_def split: list.split)
  done

lemma dept_totals_eq:
  "dept_totals_rows (zip (client_contracts_rows cs) (Total_Contracts_col (client_contracts_rows cs)))
    = map (\<lambda>d. (d, dept_total cs d)) (sort (remdups (map fst (pairs_of cs))))"
  unfolding left_eq dept_totals_rows_def
  by (simp add: comp_def case_prod_unfold dept_total_def filter_map)

lemma joined_rows_key:
  assumes "x \<in> set (joined_rows cs fin p)"
  shows "Department_m x = fst p" "Company_m x = snd p"
  using assms by (auto simp: joined_rows_def joined_row_def split: list.splits)

lemma merge_totals_eq:
  "merge_totals (concat (map (joined_rows cs fin) (pairs_of cs)))
      (map (\<lambda>d. (d, dept_total cs d)) (sort (remdups (map fst (pairs_of cs)))))
    = map (\<lambda>m. (m, Fin (of_int (dept_total cs (Department_m m)))))
        (concat (map (joined_rows cs fin) (pairs_of cs)))"
proof -
  let ?ms = "concat (map (joined_rows cs fin) (pairs_of cs))"
  let ?ks = "sort (remdups (map fst (pairs_of cs)))"
  have "merge_left Department_m fst ?ms (map (\<lambda>d. (d, dept_total cs d)) ?ks)
      = map (\<lambda>m. (m, Some (Department_m m, dept_total cs (Department_m m)))) ?ms"
  proof (rule merge_left_unique)
    fix m assume "m \<in> set ?ms"
    then obtain p where "p \<in> set (pairs_of cs)" "m \<in> set (joined_rows cs fin p)"
      by auto
    then have "Department_m m \<in> set ?ks"
      using joined_rows_key(1) [of m cs fin p] by force
    then show "filter (\<lambda>r. fst r = Department_m m) (map (\<lambda>d. (d, dept_total cs d)) ?ks)
        = [(Department_m m, dept_total cs (Department_m m))]"
      by (intro filter_key_map_distinct) simp_all
  qed
  then show ?thesis
    by (simp add: merge_totals_def comp_def)
qed

lemma merged_clients_profit_rows_eq:
  "merged_clients_profit_rows cs fin =
     concat (map (\<lambda>p. map (complete_row cs) (joined_rows cs fin p)) (pairs_of cs))"
  unfolding merged_clients_profit_rows_def Let_def merge_finance_eq dept_totals_eq merge_totals_eq
  by (simp add: comp_def complete_row_def [abs_def] Let_def map_concat)

lemma complete_row_key [simp]:
  "Department_m (complete_row cs m) = Department_m m"
  "Company_m (complete_row cs m) = Company_m m"
  by (simp_all add: complete_row_def full_row_def Let_def)

lemma merged_rows_of_pair:
  assumes "r0 \<in> set cs"
  shows "filter (\<lambda>m. (Department_m m, Company_m m) = (Department r0, Company r0))
           (merged_clients_profit_rows cs fin)
         = map (complete_row cs) (joined_rows cs fin (Department r0, Company r0))"
  unfolding merged_clients_profit_rows_eq
proof (rule filter_concat_map_key)
  show "distinct (pairs_of cs)" by (rule pairs_of_props)
  show "(Department r0, Company r0) \<in> set (pairs_of cs)"
    using assms by (simp add: pairs_of_props)
next
  fix k' x
  assume "k' \<in> set (pairs_of cs)" "x \<in> set (map (complete_row cs) (joined_rows cs fin k'))"
  then show "(Department_m x, Company_m x) = k'"
    by (auto simp: joined_rows_key prod_eq_iff)
qed



section \<open>Key Clients Contribution: the ranking\<close>

lemma desc_key_le: "desc_key a \<le> desc_key b \<longleftrightarrow> desc_before a b"
  by (cases a; cases b) simp_all

lemma desc_key_inj: "desc_key a = desc_key b \<longleftrightarrow> a = b"
  by (cases a; cases b) simp_all

lemma group_head_filter:
  "filter (\<lambda>x. key x = k) (group_head n key seen xs)
    = take (n - count_list seen k) (filter (\<lambda>x. key x = k) xs)"
proof (induction xs arbitrary: seen)
  case Nil
  then show ?case by simp
next
  case (Cons x xs)
  show ?case
  proof (cases "key x = k")
    case True
    show ?thesis
    proof (cases "count_list seen k < n")
      case lt: True
      then have "n - count_list seen k = Suc (n - Suc (count_list seen k))" by simp
      with True lt Cons.IH [of "key x # seen"] show ?thesis by simp
    next
      case False
      with True Cons.IH [of "key x # seen"] show ?thesis by simp
    qed
  next
    case False
    with Cons.IH [of "key x # seen"] show ?thesis by simp
  qed
qed

lemma insort_key_same_fst:
  assumes "\<And>y. y \<in> set (x # ys) \<Longrightarrow> f y = (c, g y)"
  shows "insort_key f x ys = insort_key g x ys"
  using assms by (induction ys) auto

lemma sort_key_same_fst:
  assumes "\<And>y. y \<in> set xs \<Longrightarrow> f y = (c, g y)"
  shows "sort_key f xs = sort_key g xs"
  using assms
proof (induction xs)
  case Nil
  then show ?case by simp
next
  case (Cons x xs)
  then have "sort_key f xs = sort_key g xs" by simp
  moreover have "insort_key f x (sort_key g xs) = insort_key g x (sort_key g xs)"
    by (rule insort_key_same_fst) (use Cons.prems in auto)
  ultimately show ?case by simp
qed

lemma sort_values_department:
  "filter (\<lambda>r. Department_m r = d) (sort_values rows)
    = sort_key (\<lambda>r. desc_key (Estimated_Profit r)) (filter (\<lambda>r. Department_m r = d) rows)"
proof -
  have "filter (\<lambda>r. Department_m r = d) (sort_values rows)
      = sort_key (\<lambda>r. (Department_m r, desc_key (Estimated_Profit r))) (filter (\<lambda>r. Department_m r = d) rows)"
    by (simp add: sort_values_def filter_sort)
  also have "\<dots> = sort_key (\<lambda>r. desc_key (Estimated_Profit r)) (filter (\<lambda>r. Department_m r = d) rows)"
    by (rule sort_key_same_fst [where c = d]) simp
  finally show ?thesis .
qed

lemma top_clients_department:
  "filter (\<lambda>r. Department_m r = d) (top_clients_15_rows cs fin)
    = take 15 (sort_key (\<lambda>r. desc_key (Estimated_Profit r))
        (filter (\<lambda>r. Department_m r = d) (merged_clients_profit_rows cs fin)))"
  by (simp add: top_clients_15_rows_def group_head_filter sort_values_department)

lemma sorted_desc:
  "sorted_wrt (\<lambda>a b. desc_before (Estimated_Profit a) (Estimated_Profit b))
     (sort_key (\<lambda>r. desc_key (Estimated_Profit r)) rows)"
proof -
  have "sorted (map (\<lambda>r. desc_key (Estimated_Profit r)) (sort_key (\<lambda>r. desc_key (Estimated_Profit r)) rows))"
    by (rule sorted_sort_key)
  then show ?thesis
    by (simp add: sorted_map desc_key_le)
qed

lemma stable_desc:
  "filter (\<lambda>r. Estimated_Profit r = v) (sort_key (\<lambda>r. desc_key (Estimated_Profit r)) rows)
    = filter (\<lambda>r. Estimated_Profit r = v) rows"
  using sort_key_stable [of "\<lambda>r. desc_key (Estimated_Profit r)" "desc_key v" rows]
  by (simp add: desc_key_inj)

lemma top_clients_props:
  fixes d cs fin
  defines "out \<equiv> filter (\<lambda>r. Department_m r = d) (top_clients_15_rows cs fin)"
    and "inp \<equiv> filter (\<lambda>r. Department_m r = d) (merged_clients_profit_rows cs fin)"
  shows "length out = min 15 (length inp)"
    and "sorted_wrt (\<lambda>a b. desc_before (Estimated_Profit a) (Estimated_Profit b)) out"
    and "prefix (filter (\<lambda>r. Estimated_Profit r = v) out) (filter (\<lambda>r. Estimated_Profit r = v) inp)"
    and "set out \<subseteq> set inp"
    and "r \<in> set inp \<Longrightarrow> r \<notin> set out \<Longrightarrow> o' \<in> set out \<Longrightarrow> desc_before (Estimated_Profit o') (Estimated_Profit r)"
proof -
  let ?S = "sort_key (\<lambda>r. desc_key (Estimated_Profit r)) inp"
  have out: "out = take 15 ?S"
    unfolding out_def inp_def by (rule top_clients_department)
  show "length out = min 15 (length inp)"
    by (simp add: out min.commute)
  have S: "sorted_wrt (\<lambda>a b. desc_before (Estimated_Profit a) (Estimated_Profit b)) ?S"
    by (rule sorted_desc)
  then show "sorted_wrt (\<lambda>a b. desc_before (Estimated_Profit a) (Estimated_Profit b)) out"
    unfolding out by (rule sorted_wrt_take)
  have "prefix (filter (\<lambda>r. Estimated_Profit r = v) (take 15 ?S)) (filter (\<lambda>r. Estimated_Profit r = v) ?S)"
    by (intro filter_mono_prefix take_is_prefix)
  then show "prefix (filter (\<lambda>r. Estimated_Profit r = v) out) (filter (\<lambda>r. Estimated_Profit r = v) inp)"
    by (simp add: out stable_desc)
  have "set (take 15 ?S) \<subseteq> set ?S"
    by (rule set_take_subset)
  then show "set out \<subseteq> set inp"
    by (simp add: out)
  assume r: "r \<in> set inp" "r \<notin> set out" and o: "o' \<in> set out"
  from r have "r \<in> set (drop 15 ?S)"
    unfolding out by (metis Un_iff append_take_drop_id set_append set_sort)
  moreover have "sorted_wrt (\<lambda>a b. desc_before (Estimated_Profit a) (Estimated_Profit b)) (take 15 ?S @ drop 15 ?S)"
    using S by simp
  ultimately show "desc_before (Estimated_Profit o') (Estimated_Profit r)"
    using o unfolding out sorted_wrt_append by blast
qed

section \<open>Key Clients Contribution: departments with no finance row\<close>

lemma fmul_NaN_right [simp]: "fmul x NaN = NaN"
  by (cases x) simp_all

lemma estimated_profit_NaN [simp]: "estimated_profit s NaN = NaN"
  by (simp add: estimated_profit_def)

lemma joined_rows_no_finance:
  assumes "\<forall>f \<in> set fin. Department_f f \<noteq> d"
  shows "joined_rows cs fin (d, c) = [joined_row cs d c None]"
  using assms by (simp add: joined_rows_def filter_empty_conv)

lemma filter_concat_map_fst:
  assumes "\<And>p x. x \<in> set (g p) \<Longrightarrow> key x = fst p"
  shows "filter (\<lambda>x. key x = d) (concat (map g ps)) = concat (map g (filter (\<lambda>p. fst p = d) ps))"
proof (induction ps)
  case Nil
  then show ?case by simp
next
  case (Cons p ps)
  have "filter (\<lambda>x. key x = d) (g p) = (if fst p = d then g p else [])"
    using assms [of _ p] by (auto simp: filter_id_conv filter_empty_conv)
  with Cons show ?case by simp
qed

lemma merged_department:
  "filter (\<lambda>r. Department_m r = d) (merged_clients_profit_rows cs fin)
    = concat (map (\<lambda>p. map (complete_row cs) (joined_rows cs fin p))
        (filter (\<lambda>p. fst p = d) (pairs_of cs)))"
  unfolding merged_clients_profit_rows_eq
  by (rule filter_concat_map_fst) (auto simp: joined_rows_key)

lemma merged_department_no_finance:
  assumes "\<forall>f \<in> set fin. Department_f f \<noteq> d"
  shows "filter (\<lambda>r. Department_m r = d) (merged_clients_profit_rows cs fin)
    = map (\<lambda>p. complete_row cs (joined_row cs d (snd p) None)) (filter (\<lambda>p. fst p = d) (pairs_of cs))"
proof -
  have "\<And>p. fst p = d \<Longrightarrow> map (complete_row cs) (joined_rows cs fin p) = [complete_row cs (joined_row cs d (snd p) None)]"
    using joined_rows_no_finance [OF assms] by (metis list.simps(8,9) prod.collapse)
  then have "concat (map (\<lambda>p. map (complete_row cs) (joined_rows cs fin p)) (filter (\<lambda>p. fst p = d) (pairs_of cs)))
      = concat (map (\<lambda>p. [complete_row cs (joined_row cs d (snd p) None)]) (filter (\<lambda>p. fst p = d) (pairs_of cs)))"
    by (intro arg_cong [where f = concat] map_cong refl) simp
  then show ?thesis
    unfolding merged_department by (simp add: concat_map_singleton)
qed

lemma complete_row_null [simp]:
  "Estimated_Profit (complete_row cs (joined_row cs d c None)) = NaN"
  "Total_Profit_m (complete_row cs (joined_row cs d c None)) = NaN"
  "Year_m (complete_row cs (joined_row cs d c None)) = None"
  "Company_m (complete_row cs (joined_row cs d c None)) = c"
  by (simp_all add: complete_row_def joined_row_def full_row_def Let_def)

lemma sorted_snd_same_fst:
  fixes ps :: "('a::linorder \<times> 'b::linorder) list"
  assumes "sorted ps"
  shows "sorted (map snd (filter (\<lambda>p. fst p = d) ps))"
proof -
  have "sorted_wrt (\<le>) (filter (\<lambda>p. fst p = d) ps)"
    using assms by (rule sorted_wrt_filter)
  then have "sorted_wrt (\<lambda>p q. snd p \<le> snd q) (filter (\<lambda>p. fst p = d) ps)"
    by (rule sorted_wrt_mono_rel [rotated]) (auto simp: less_eq_prod_def)
  then show ?thesis by (simp add: sorted_map)
qed

lemma top_department_no_finance:
  assumes "\<forall>f \<in> set fin. Department_f f \<noteq> d"
  shows "filter (\<lambda>r. Department_m r = d) (top_clients_15_rows cs fin)
    = take 15 (filter (\<lambda>r. Department_m r = d) (merged_clients_profit_rows cs fin))"
proof -
  let ?M = "filter (\<lambda>r. Department_m r = d) (merged_clients_profit_rows cs fin)"
  have "map (\<lambda>r. desc_key (Estimated_Profit r)) ?M = replicate (length ?M) (desc_key NaN)"
    unfolding merged_department_no_finance [OF assms]
    by (simp add: map_replicate_const comp_def)
  then have "sorted (map (\<lambda>r. desc_key (Estimated_Profit r)) ?M)"
    by (simp add: sorted_replicate)
  then have "sort_key (\<lambda>r. desc_key (Estimated_Profit r)) ?M = ?M"
    by (rule sort_key_id_if_sorted)
  then show ?thesis
    by (simp add: top_clients_department)
qed

section \<open>Key Clients Contribution: the join and the output\<close>





text \<open>
  C3. The rows of a department in the output are at most 15, the first 15 of the
  department's merged rows in descending order of the estimate (nulls last); rows with the
  same estimate keep the order they have in the merged table; a row left out is no better
  than any row kept.
\<close>

theorem top_clients_sorted_capped:
  "let out = filter (\<lambda>r. Department_m r = d) (top_clients_15_rows cs fin);
       inp = filter (\<lambda>r. Department_m r = d) (merged_clients_profit_rows cs fin)
   in length out \<le> 15 \<and> length out = min 15 (length inp) \<and> set out \<subseteq> set inp
    \<and> sorted_wrt (\<lambda>a b. desc_before (Estimated_Profit a) (Estimated_Profit b)) out
    \<and> (\<forall>v. prefix (filter (\<lambda>r. Estimated_Profit r = v) out) (filter (\<lambda>r. Estimated_Profit r = v) inp))
    \<and> (\<forall>r \<in> set inp. r \<notin> set out \<longrightarrow>
          (\<forall>o' \<in> set out. desc_before (Estimated_Profit o') (Estimated_Profit r)))"
  unfolding Let_def
  using top_clients_props [where d = d and cs = cs and fin = fin] by (auto simp: min_def)

theorem top_clients_sorted_capped_witness:
  "length (filter (\<lambda>r. Department_m r = ''Sales'') (top_clients_15_rows example_clients example_finance)) \<le> 15
   \<and> sorted_wrt (\<lambda>a b. desc_before (Estimated_Profit a) (Estimated_Profit b))
       (filter (\<lambda>r. Department_m r = ''Sales'') (top_clients_15_rows example_clients example_finance))
   \<and> map Estimated_Profit (filter (\<lambda>r. Department_m r = ''Sales'')
       (top_clients_15_rows example_clients example_finance))
      = [Fin (6003 / 10), Fin (2997 / 10), Fin (667 / 4), Fin (333 / 4)]"
proof -
  have "map Estimated_Profit (filter (\<lambda>r. Department_m r = ''Sales'')
       (top_clients_15_rows example_clients example_finance))
      = [Fin (6003 / 10), Fin (2997 / 10), Fin (667 / 4), Fin (333 / 4)]"
    by code_simp
  then show ?thesis
    using top_clients_sorted_capped [of "''Sales''" example_clients example_finance]
    by (simp add: Let_def)
qed

text \<open>
  C10, as the code has it. A company whose department has no finance row has exactly one
  row in the merged table, with null year, profit and estimate. The merged rows of such a
  department are in ascending order of the company, one each, and the output keeps the
  first 15 of them: the row of the company is in the output when the department has at
  most 15 companies.
\<close>

theorem left_join_without_finance:
  assumes "r0 \<in> set cs" and "\<forall>f \<in> set fin. Department_f f \<noteq> Department r0"
  shows "let d = Department r0; c = Company r0;
      joined = filter (\<lambda>m. Department_m m = d \<and> Company_m m = c) (merged_clients_profit_rows cs fin);
      inp = filter (\<lambda>m. Department_m m = d) (merged_clients_profit_rows cs fin);
      out = filter (\<lambda>m. Department_m m = d) (top_clients_15_rows cs fin)
    in (\<exists>row. joined = [row] \<and> Year_m row = None \<and> Total_Profit_m row = NaN
          \<and> Estimated_Profit row = NaN)
     \<and> sorted (map Company_m inp) \<and> distinct (map Company_m inp)
     \<and> set (map Company_m inp) = Company ` {r \<in> set cs. Department r = d}
     \<and> out = take 15 inp
     \<and> (card (Company ` {r \<in> set cs. Department r = d}) \<le> 15 \<longrightarrow>
          filter (\<lambda>m. Department_m m = d \<and> Company_m m = c) (top_clients_15_rows cs fin) = joined)"
proof -
  let ?d = "Department r0" and ?c = "Company r0"
  let ?M = "merged_clients_profit_rows cs fin" and ?T = "top_clients_15_rows cs fin"
  let ?inp = "filter (\<lambda>m. Department_m m = ?d) ?M"
  let ?out = "filter (\<lambda>m. Department_m m = ?d) ?T"
  let ?joined = "filter (\<lambda>m. Department_m m = ?d \<and> Company_m m = ?c) ?M"
  let ?ps = "filter (\<lambda>p. fst p = ?d) (pairs_of cs)"
  have j: "?joined = [complete_row cs (joined_row cs ?d ?c None)]"
    using merged_rows_of_pair [OF assms(1), of fin] joined_rows_no_finance [OF assms(2), of cs ?c]
    by simp
  have inp: "?inp = map (\<lambda>p. complete_row cs (joined_row cs ?d (snd p) None)) ?ps"
    by (rule merged_department_no_finance [OF assms(2)])
  have names: "map Company_m ?inp = map snd ?ps"
    unfolding inp by (simp add: comp_def joined_row_def)
  have 1: "\<exists>row. ?joined = [row] \<and> Year_m row = None \<and> Total_Profit_m row = NaN
          \<and> Estimated_Profit row = NaN"
    unfolding j by simp
  have 2: "sorted (map Company_m ?inp)"
    unfolding names by (rule sorted_snd_same_fst) (rule pairs_of_props)
  have "inj_on snd (set ?ps)"
    by (auto simp: inj_on_def prod_eq_iff)
  then have 3: "distinct (map Company_m ?inp)"
    unfolding names by (simp add: distinct_map pairs_of_props)
  have 4: "set (map Company_m ?inp) = Company ` {r \<in> set cs. Department r = ?d}"
    unfolding names by (force simp: pairs_of_props)
  have 5: "?out = take 15 ?inp"
    by (rule top_department_no_finance [OF assms(2)])
  have 6: "filter (\<lambda>m. Department_m m = ?d \<and> Company_m m = ?c) ?T = ?joined"
    if "card (Company ` {r \<in> set cs. Department r = ?d}) \<le> 15"
  proof -
    have "length ?inp = card (Company ` {r \<in> set cs. Department r = ?d})"
      using 3 4 by (metis distinct_card length_map)
    with that 5 have "?out = ?inp" by simp
    then have "filter (\<lambda>m. Company_m m = ?c) ?out = filter (\<lambda>m. Company_m m = ?c) ?inp"
      by simp
    then show ?thesis by (simp add: conj_commute)
  qed
  show ?thesis
    unfolding Let_def using 1 2 3 4 5 6 by blast
qed

theorem left_join_without_finance_witness:
  "hd example_clients \<in> set example_clients
   \<and> list_all (\<lambda>f. Department_f f \<noteq> Department (hd example_clients)) x_finance
   \<and> map Estimated_Profit (filter (\<lambda>m. Department_m m = ''Sales'')
        (top_clients_15_rows example_clients x_finance)) = [NaN, NaN]
   \<and> filter (\<lambda>m. Department_m m = Department (hd example_clients))
        (top_clients_15_rows example_clients x_finance)
     = take 15 (filter (\<lambda>m. Department_m m = Department (hd example_clients))
        (merged_clients_profit_rows example_clients x_finance))"
proof -
  have mem: "hd example_clients \<in> set example_clients"
    by (simp add: example_clients_def)
  have nof: "\<forall>f \<in> set x_finance. Department_f f \<noteq> Department (hd example_clients)"
    by (simp add: x_finance_def example_clients_def)
  have ev: "map Estimated_Profit (filter (\<lambda>m. Department_m m = ''Sales'')
        (top_clients_15_rows example_clients x_finance)) = [NaN, NaN]"
    by code_simp
  show ?thesis
    using left_join_without_finance [OF mem nof] mem nof ev
    by (simp add: Let_def list_all_iff)
qed

text \<open>
  C10 as the specification words it fails: of sixteen companies in a department with no
  finance row (the finance table has department X only), the sixteenth has a row in the
  merged table and none in the output, which has 15 rows.
\<close>

theorem sixteenth_company_dropped_counterexample:
  "\<lparr>Company = ''C16'', Department = ''D'', Renewal_No = 0, Year = 2020\<rparr> \<in> set sixteen_clients
   \<and> map Department_f x_finance = [''X'']
   \<and> map Company_m (filter (\<lambda>m. Department_m m = ''D'' \<and> Company_m m = ''C16'')
       (merged_clients_profit_rows sixteen_clients x_finance)) = [''C16'']
   \<and> length (top_clients_15_rows sixteen_clients x_finance) = 15
   \<and> filter (\<lambda>m. Department_m m = ''D'' \<and> Company_m m = ''C16'')
       (top_clients_15_rows sixteen_clients x_finance) = []"
proof -
  have "\<lparr>Company = ''C16'', Department = ''D'', Renewal_No = 0, Year = 2020\<rparr> \<in> set sixteen_clients"
    by (simp add: sixteen_clients_def)
  moreover have "map Department_f x_finance = [''X'']"
    by (simp add: x_finance_def)
  moreover have "map Company_m (filter (\<lambda>m. Department_m m = ''D'' \<and> Company_m m = ''C16'')
       (merged_clients_profit_rows sixteen_clients x_finance)) = [''C16'']"
    by code_simp
  moreover have "length (top_clients_15_rows sixteen_clients x_finance) = 15"
    by code_simp
  moreover have "filter (\<lambda>m. Department_m m = ''D'' \<and> Company_m m = ''C16'')
       (top_clients_15_rows sixteen_clients x_finance) = []"
    by code_simp
  ultimately show ?thesis by simp
qed

section \<open>The script: normalization, frame and growth\<close>

lemma astype_int_fail:
  assumes "\<exists>r \<in> set rf. cast (Year_fr r) = None"
  shows "astype_int cast rf = Inl ValueError"
  using assms
proof (induction rf)
  case Nil
  then show ?case by simp
next
  case (Cons r rf)
  show ?case
  proof (cases "cast (Year_fr r)")
    case None
    then show ?thesis by simp
  next
    case (Some y)
    with Cons.prems have "\<exists>r \<in> set rf. cast (Year_fr r) = None" by auto
    then have "astype_int cast rf = Inl ValueError" by (rule Cons.IH)
    with Some show ?thesis by simp
  qed
qed

lemma astype_int_ok:
  assumes "\<forall>r \<in> set rf. cast (Year_fr r) \<noteq> None"
  shows "\<exists>fin. astype_int cast rf = Inr fin
    \<and> map (\<lambda>r. Some (Year_f r)) fin = map (\<lambda>r. cast (Year_fr r)) rf
    \<and> map Department_f fin = map Department_fr rf
    \<and> map Total_Sales fin = map Total_Sales_fr rf
    \<and> map Total_Profit fin = map Total_Profit_fr rf"
  using assms by (induction rf) (auto split: option.splits sum.splits)

lemma exec_frame:
  assumes "exec l s = Inr s'" and "v \<noteq> target l"
  shows "same_on v s s'"
  using assms
  by (cases l; cases v) (auto split: option.splits simp: Let_def)

lemma target_owner:
  "created_by (target l) = Some (section_of l) \<or> (l = L112 \<and> target l = V_finance)"
  by (cases l) simp_all

lemma target_inputs: "target l \<noteq> V_clients" "target l = V_finance \<longleftrightarrow> l = L112"
  by (cases l; simp)+

lemma col_grows_refl [simp]: "col_grows a a"
  by (simp add: col_grows_def split: option.split)

lemma col_grows_None [simp]: "col_grows None b"
  by (simp add: col_grows_def)

lemma col_grows_Some [simp]: "col_grows (Some x) b \<longleftrightarrow> b = Some x"
  by (simp add: col_grows_def)

lemma col_grows_trans: "col_grows a b \<Longrightarrow> col_grows b c \<Longrightarrow> col_grows a c"
  by (auto simp: col_grows_def split: option.splits)

lemma opt_grows_refl: "(\<And>x. R x x) \<Longrightarrow> opt_grows R a a"
  by (cases a) simp_all

lemma opt_grows_trans:
  assumes "\<And>x y z. R x y \<Longrightarrow> R y z \<Longrightarrow> R x z"
    and "opt_grows R a b" and "opt_grows R b c"
  shows "opt_grows R a c"
proof (cases a)
  case None
  then show ?thesis by simp
next
  case a: (Some x)
  show ?thesis
  proof (cases b)
    case None
    with a assms(2) show ?thesis by simp
  next
    case b: (Some y)
    show ?thesis
    proof (cases c)
      case None
      with b assms(3) show ?thesis by simp
    next
      case (Some z)
      with a b assms(2,3) have "R x y" "R y z" by simp_all
      then have "R x z" by (rule assms(1))
      with a Some show ?thesis by simp
    qed
  qed
qed

lemma grows_refl: "grows s s"
  by (simp add: grows_def opt_grows_refl share_grows_def merged_grows_def)

lemma share_grows_trans: "share_grows a b \<Longrightarrow> share_grows b c \<Longrightarrow> share_grows a c"
  by (auto simp: share_grows_def intro: col_grows_trans)

lemma merged_grows_trans: "merged_grows a b \<Longrightarrow> merged_grows b c \<Longrightarrow> merged_grows a c"
  by (auto simp: merged_grows_def intro: col_grows_trans)

lemma grows_trans:
  assumes "grows a b" and "grows b c"
  shows "grows a c"
proof -
  note og = opt_grows_trans [rotated 1]
  from assms show ?thesis
    unfolding grows_def
    apply (elim conjE)
    apply (intro conjI)
                 apply simp
                apply simp
               apply (erule (1) col_grows_trans)
              apply (erule (1) og; auto intro: col_grows_trans)
             apply (erule (1) og; simp)
            apply (erule (1) og; erule (1) share_grows_trans)
           apply (erule (1) og; simp)
          apply (erule (1) og; erule (1) share_grows_trans)
         apply (erule (1) og; simp)
        apply (erule (1) og; auto intro: col_grows_trans)
       apply (erule (1) og; erule (1) merged_grows_trans)
      apply (erule (1) og; simp)
     apply (erule (1) og; simp)
    apply (erule (1) og; simp)
    done
qed

lemma run_append:
  "run (xs @ ys) s = (case run xs s of Inl e \<Rightarrow> Inl e | Inr s' \<Rightarrow> run ys s')"
  by (induction xs arbitrary: s) (auto split: sum.splits)

lemma all_grow_run:
  assumes "all_grow ls s" and "j \<le> length ls"
  shows "\<exists>sj. run (take j ls) s = Inr sj \<and> grows s sj \<and> all_grow (drop j ls) sj"
  using assms
proof (induction ls arbitrary: s j)
  case Nil
  then show ?case by (simp add: grows_refl)
next
  case (Cons l ls)
  show ?case
  proof (cases j)
    case 0
    with Cons.prems show ?thesis by (simp add: grows_refl)
  next
    case (Suc j')
    from Cons.prems(1) obtain s' where e: "exec l s = Inr s'" and g: "grows s s'" and a: "all_grow ls s'"
      by (auto split: sum.splits)
    from Cons.prems(2) Suc have "j' \<le> length ls" by simp
    from Cons.IH [OF a this] obtain sj where
      r: "run (take j' ls) s' = Inr sj" and g': "grows s' sj" and a': "all_grow (drop j' ls) sj"
      by blast
    from g g' have "grows s sj" by (rule grows_trans)
    with r a' e Suc show ?thesis by simp
  qed
qed

lemma all_grow_pairs:
  assumes "all_grow ls s" and "i \<le> j" and "j \<le> length ls"
  shows "\<exists>si sj. run (take i ls) s = Inr si \<and> run (take j ls) s = Inr sj \<and> grows si sj"
proof -
  from assms have "i \<le> length ls" by simp
  from all_grow_run [OF assms(1) this] obtain si where
    1: "run (take i ls) s = Inr si" and 2: "all_grow (drop i ls) si"
    by blast
  from assms have "j - i \<le> length (drop i ls)" by simp
  from all_grow_run [OF 2 this] obtain sj where
    3: "run (take (j - i) (drop i ls)) si = Inr sj" and 4: "grows si sj"
    by blast
  have "take j ls = take i ls @ take (j - i) (drop i ls)"
    using assms(2) by (metis le_add_diff_inverse take_add)
  then have "run (take j ls) s = Inr sj"
    using 1 3 by (simp add: run_append)
  with 1 4 show ?thesis by blast
qed

lemma merged_rows_unchanged:
  "map fst (merge_totals
      (merge_finance (zip (client_contracts_rows cs) (Total_Contracts_col (client_contracts_rows cs))) fin)
      (dept_totals_rows (zip (client_contracts_rows cs) (Total_Contracts_col (client_contracts_rows cs)))))
    = merge_finance (zip (client_contracts_rows cs) (Total_Contracts_col (client_contracts_rows cs))) fin"
  unfolding merge_finance_eq dept_totals_eq merge_totals_eq
  by (simp add: comp_def)

lemma script_grows: "all_grow script (init_state cs fin)"
  by (simp add: script_def init_state_def grows_def share_grows_def merged_grows_def
      merged_rows_unchanged Let_def)

lemma full_rows_zip:
  "map2 (\<lambda>m (dtc, x, y). full_row m dtc x y) (map fst mt)
     (zip (map snd mt)
        (zip (map2 contracts_share (map (Total_Contracts_m \<circ> fst) mt) (map snd mt))
           (map2 estimated_profit
              (map2 contracts_share (map (Total_Contracts_m \<circ> fst) mt) (map snd mt))
              (map (Total_Profit_m \<circ> fst) mt))))
    = map (\<lambda>(m, dtc). full_row m dtc (contracts_share (Total_Contracts_m m) dtc)
             (estimated_profit (contracts_share (Total_Contracts_m m) dtc) (Total_Profit_m m))) mt"
  by (induction mt) auto

text \<open>
  From a normalized state the script runs to its end, and its tables are those of the
  functions of the sections above.
\<close>

lemma script_computes:
  "\<exists>s. analyze (init_state cs fin) = Inr s
     \<and> clients s = cs
     \<and> finance s = \<lparr>f_rows = fin, Profit_Margin = Some (Profit_Margin_col fin)\<rparr>
     \<and> clients_per_year s = Some \<lparr>cpy_rows = clients_per_year_rows cs,
          Growth = Some (Growth_col (clients_per_year_rows cs))\<rparr>
     \<and> renewal_counts s = Some (renewal_counts_rows cs)
     \<and> dept_share s = Some \<lparr>share_rows = dept_count cs, Share = Some (Share_col (dept_count cs))\<rparr>
     \<and> first_share s = Some \<lparr>share_rows = dept_count (first_contracts_rows cs),
          Share = Some (Share_col (dept_count (first_contracts_rows cs)))\<rparr>
     \<and> churn_df s = Some (churn_data cs)
     \<and> top_clients_per_dept s = Some (sort_values (merged_clients_profit_rows cs fin))
     \<and> top_clients_15 s = Some (top_clients_15_rows cs fin)"
  by (simp add: analyze_def script_def init_state_def Let_def
      merged_clients_profit_rows_def top_clients_15_rows_def full_rows_zip)

lemma target_created:
  "l \<noteq> L112 \<Longrightarrow> created_by (target l) = Some (section_of l)"
  by (cases l) simp_all

text \<open>
  C5, as the code has it. A line changes no variable but the one it assigns to, in any
  state; no line assigns to \<open>clients\<close>, only line 112 assigns to \<open>finance\<close>, and
  every other line assigns to a table of its own section of the source. Along the run of
  the script from a normalized state no step fails, and between any two of its states the
  state has grown: the rows of \<open>clients\<close> and \<open>finance\<close> are the same, and a table,
  once created, keeps its rows and every column it has, new columns being added in place
  (the profit margin to \<open>finance\<close>, growth, share, contracts, contract share and
  estimate to the derived tables).
\<close>

theorem frame_of_the_script:
  "(\<forall>l s s' v. exec l s = Inr s' \<longrightarrow> v \<noteq> target l \<longrightarrow> same_on v s s')
   \<and> (\<forall>l. target l \<noteq> V_clients \<and> (target l = V_finance \<longleftrightarrow> l = L112)
         \<and> (l \<noteq> L112 \<longrightarrow> created_by (target l) = Some (section_of l)))
   \<and> (\<forall>i j. i \<le> j \<longrightarrow> j \<le> length script \<longrightarrow>
         (\<exists>si sj. run (take i script) (init_state cs fin) = Inr si
            \<and> run (take j script) (init_state cs fin) = Inr sj \<and> grows si sj))"
proof (intro conjI allI impI)
  fix l s s' v
  assume "exec l s = Inr s'" "v \<noteq> target l"
  then show "same_on v s s'" by (rule exec_frame)
next
  fix l show "target l \<noteq> V_clients" by (rule target_inputs)
next
  fix l show "(target l = V_finance) = (l = L112)" by (rule target_inputs)
next
  fix l assume "l \<noteq> L112"
  then show "created_by (target l) = Some (section_of l)" by (rule target_created)
next
  fix i j assume "i \<le> j" "j \<le> length script"
  with script_grows show "\<exists>si sj. run (take i script) (init_state cs fin) = Inr si
            \<and> run (take j script) (init_state cs fin) = Inr sj \<and> grows si sj"
    by (rule all_grow_pairs)
qed

theorem frame_of_the_script_witness:
  "exec L112 (init_state example_clients example_finance) =
     Inr ((init_state example_clients example_finance)
       \<lparr>finance := \<lparr>f_rows = example_finance,
          Profit_Margin = Some (Profit_Margin_col example_finance)\<rparr>\<rparr>)
   \<and> same_on V_clients (init_state example_clients example_finance)
       ((init_state example_clients example_finance)
         \<lparr>finance := \<lparr>f_rows = example_finance,
            Profit_Margin = Some (Profit_Margin_col example_finance)\<rparr>\<rparr>)
   \<and> (\<exists>si sj. run (take 9 script) (init_state example_clients example_finance) = Inr si
          \<and> run (take 10 script) (init_state example_clients example_finance) = Inr sj
          \<and> grows si sj)"
proof -
  let ?s = "init_state example_clients example_finance"
  let ?s' = "?s\<lparr>finance := \<lparr>f_rows = example_finance,
          Profit_Margin = Some (Profit_Margin_col example_finance)\<rparr>\<rparr>"
  note t = frame_of_the_script [of example_clients example_finance]
  have e: "exec L112 ?s = Inr ?s'"
    by (simp add: init_state_def)
  have v: "V_clients \<noteq> target L112"
    by simp
  from t e v have 1: "same_on V_clients ?s ?s'"
    by blast
  have "(9::nat) \<le> 10" and "10 \<le> length script"
    by (simp_all add: script_def)
  with t have 2: "\<exists>si sj. run (take 9 script) ?s = Inr si \<and> run (take 10 script) ?s = Inr sj
          \<and> grows si sj"
    by blast
  from e 1 2 show ?thesis by blast
qed

text \<open>
  C5 as the specification words it fails: line 112 changes the input table \<open>finance\<close>
  (it has the margin column afterwards), and line 42 changes the table created by line 41.
\<close>

theorem tables_updated_in_place_counterexample:
  "finance (init_state example_clients example_finance)
     = \<lparr>f_rows = example_finance, Profit_Margin = None\<rparr>
   \<and> map_sum id finance (exec L112 (init_state example_clients example_finance))
     = Inr \<lparr>f_rows = example_finance, Profit_Margin = Some [Fin 25, Fin 45, Fin 45]\<rparr>
   \<and> map_sum id clients_per_year (run [L41] (init_state example_clients example_finance))
     = Inr (Some \<lparr>cpy_rows = [(2020, 2), (2021, 1)], Growth = None\<rparr>)
   \<and> map_sum id clients_per_year (run [L41, L42] (init_state example_clients example_finance))
     = Inr (Some \<lparr>cpy_rows = [(2020, 2), (2021, 1)], Growth = Some [NaN, Fin (- 50)]\<rparr>)"
proof -
  have m: "Profit_Margin_col example_finance = [Fin 25, Fin 45, Fin 45]"
    by code_simp
  have r: "clients_per_year_rows example_clients = [(2020, 2), (2021, 1)]"
    by code_simp
  have g: "Growth_col (clients_per_year_rows example_clients) = [NaN, Fin (- 50)]"
    by code_simp
  show ?thesis
    by (simp add: init_state_def m g) (simp add: r)
qed

text \<open>
  C8. If the year of some finance row cannot be cast, normalization fails and so does the
  whole run, which yields an error and no state: no analysis has run. Otherwise
  normalization yields the finance rows with the years cast, the other columns as they
  were, and the run goes on to its end with every table computed.
\<close>

theorem invalid_finance_year_is_fatal:
  "((\<exists>r \<in> set rf. cast (Year_fr r) = None) \<longrightarrow>
       normalize cast rc rf = Inl ValueError \<and> pipeline cast rc rf = Inl ValueError)
   \<and> ((\<forall>r \<in> set rf. cast (Year_fr r) \<noteq> None) \<longrightarrow>
       (\<exists>fin s. normalize cast rc rf = Inr (init_state (dropna rc) fin)
          \<and> map (\<lambda>r. Some (Year_f r)) fin = map (\<lambda>r. cast (Year_fr r)) rf
          \<and> map Department_f fin = map Department_fr rf
          \<and> map Total_Sales fin = map Total_Sales_fr rf
          \<and> map Total_Profit fin = map Total_Profit_fr rf
          \<and> pipeline cast rc rf = Inr s
          \<and> clients s = dropna rc \<and> f_rows (finance s) = fin
          \<and> churn_df s = Some (churn_data (dropna rc))
          \<and> top_clients_15 s = Some (top_clients_15_rows (dropna rc) fin)))"
proof (intro conjI impI)
  assume "\<exists>r \<in> set rf. cast (Year_fr r) = None"
  then have "astype_int cast rf = Inl ValueError"
    by (rule astype_int_fail)
  then show "normalize cast rc rf = Inl ValueError" "pipeline cast rc rf = Inl ValueError"
    by (simp_all add: normalize_def pipeline_def)
next
  assume "\<forall>r \<in> set rf. cast (Year_fr r) \<noteq> None"
  from astype_int_ok [OF this] obtain fin where
    a: "astype_int cast rf = Inr fin"
    and cols: "map (\<lambda>r. Some (Year_f r)) fin = map (\<lambda>r. cast (Year_fr r)) rf"
      "map Department_f fin = map Department_fr rf"
      "map Total_Sales fin = map Total_Sales_fr rf"
      "map Total_Profit fin = map Total_Profit_fr rf"
    by blast
  from a have n: "normalize cast rc rf = Inr (init_state (dropna rc) fin)"
    by (simp add: normalize_def)
  from script_computes [of "dropna rc" fin] obtain s where
    s: "analyze (init_state (dropna rc) fin) = Inr s" "clients s = dropna rc"
      "finance s = \<lparr>f_rows = fin, Profit_Margin = Some (Profit_Margin_col fin)\<rparr>"
      "churn_df s = Some (churn_data (dropna rc))"
      "top_clients_15 s = Some (top_clients_15_rows (dropna rc) fin)"
    by blast
  from n s(1) have p: "pipeline cast rc rf = Inr s"
    by (simp add: pipeline_def)
  from s(3) have f: "f_rows (finance s) = fin"
    by simp
  from n cols p s(2) f s(4,5)
  show "\<exists>fin s. normalize cast rc rf = Inr (init_state (dropna rc) fin)
          \<and> map (\<lambda>r. Some (Year_f r)) fin = map (\<lambda>r. cast (Year_fr r)) rf
          \<and> map Department_f fin = map Department_fr rf
          \<and> map Total_Sales fin = map Total_Sales_fr rf
          \<and> map Total_Profit fin = map Total_Profit_fr rf
          \<and> pipeline cast rc rf = Inr s
          \<and> clients s = dropna rc \<and> f_rows (finance s) = fin
          \<and> churn_df s = Some (churn_data (dropna rc))
          \<and> top_clients_15 s = Some (top_clients_15_rows (dropna rc) fin)"
    by blast
qed

theorem invalid_finance_year_is_fatal_witness:
  "pipeline (\<lambda>y. y) []
      [\<lparr>Department_fr = ''Sales'', Year_fr = Some 2020, Total_Sales_fr = Fin 1000, Total_Profit_fr = Fin 250\<rparr>,
       \<lparr>Department_fr = ''Sales'', Year_fr = None, Total_Sales_fr = Fin 2000, Total_Profit_fr = Fin 900\<rparr>]
     = Inl ValueError
   \<and> normalize (\<lambda>y. y) []
      [\<lparr>Department_fr = ''Sales'', Year_fr = Some 2020, Total_Sales_fr = Fin 1000, Total_Profit_fr = Fin 250\<rparr>]
     = Inr (init_state []
         [\<lparr>Department_f = ''Sales'', Year_f = 2020, Total_Sales = Fin 1000, Total_Profit = Fin 250\<rparr>])
   \<and> (\<exists>s. pipeline (\<lambda>y. y) []
      [\<lparr>Department_fr = ''Sales'', Year_fr = Some 2020, Total_Sales_fr = Fin 1000, Total_Profit_fr = Fin 250\<rparr>]
     = Inr s)"
proof -
  let ?bad = "[\<lparr>Department_fr = ''Sales'', Year_fr = Some (2020::int), Total_Sales_fr = Fin 1000, Total_Profit_fr = Fin 250\<rparr>,
       \<lparr>Department_fr = ''Sales'', Year_fr = None, Total_Sales_fr = Fin 2000, Total_Profit_fr = Fin 900\<rparr>]"
  let ?good = "[\<lparr>Department_fr = ''Sales'', Year_fr = Some (2020::int), Total_Sales_fr = Fin 1000, Total_Profit_fr = Fin 250\<rparr>]"
  have b: "\<exists>r \<in> set ?bad. (\<lambda>y. y) (Year_fr r) = None"
    by simp
  have g: "\<forall>r \<in> set ?good. (\<lambda>y. y) (Year_fr r) \<noteq> None"
    by simp
  from invalid_finance_year_is_fatal [of ?bad "\<lambda>y. y" "[]"] b
  have 1: "pipeline (\<lambda>y. y) [] ?bad = Inl ValueError"
    by blast
  from invalid_finance_year_is_fatal [of ?good "\<lambda>y. y" "[]"] g
  have 2: "\<exists>s. pipeline (\<lambda>y. y) [] ?good = Inr s"
    by blast
  have 3: "normalize (\<lambda>y. y) [] ?good = Inr (init_state []
         [\<lparr>Department_f = ''Sales'', Year_f = 2020, Total_Sales = Fin 1000, Total_Profit = Fin 250\<rparr>])"
    by (simp add: normalize_def dropna_def List.map_filter_def)
  from 1 2 3 show ?thesis by blast
qed

end
